theory Spec2Isabelle
  imports Complex_Main
begin

section \<open>Python values: exceptions and numpy arrays\<close>

text \<open>
  The embedding reads numpy's float64 as \<^typ>\<open>real\<close>: every arithmetic operation is the
  exact one and rounding is not modelled. A NaN is no real number: where the code divides
  without testing the divisor, the quotient \<open>0 / 0\<close> is an outcome of its own in the model.
  Shapes, indexing, broadcasting and the exceptions they raise are modelled as numpy has
  them.

  A Python exception is a value \<open>Inl e\<close> of the result type; \<open>seq\<close> runs the next
  statement only when the previous one did not raise.
\<close>

datatype py_error =
    ValueError
  | IndexError
  | KeyError
  | TypeError
  | AttributeError
  | ZeroDivisionError
  | PyException

type_synonym 'a result = "py_error + 'a"

definition seq :: "'a result \<Rightarrow> ('a \<Rightarrow> 'b result) \<Rightarrow> 'b result" where
  "seq m f = (case m of Inl e \<Rightarrow> Inl e | Inr x \<Rightarrow> f x)"

text \<open>Running a loop body over a list, stopping at the first exception.\<close>

fun map_result :: "('a \<Rightarrow> 'b result) \<Rightarrow> 'a list \<Rightarrow> 'b list result" where
  "map_result f [] = Inr []"
| "map_result f (x # xs) = seq (f x) (\<lambda>y. seq (map_result f xs) (\<lambda>ys. Inr (y # ys)))"

type_synonym vec = "real list"

text \<open>
  A 2-D array keeps its number of columns beside its rows and a 3-D array the sizes of its
  second and third axis, so that the shapes \<open>(0, d)\<close> and \<open>(n, d, 0)\<close> are told apart.
\<close>

datatype mat = Mat (ncols: nat) (rows: "vec list")

datatype ten = Ten (dim1: nat) (dim2: nat) (slabs: "vec list list")

datatype ndarray = A0 real | A1 vec | A2 mat | A3 ten

definition nrows :: "mat \<Rightarrow> nat" where
  "nrows m = length (rows m)"

definition wf_mat :: "mat \<Rightarrow> bool" where
  "wf_mat m = list_all (\<lambda>r. length r = ncols m) (rows m)"

definition wf_ten :: "ten \<Rightarrow> bool" where
  "wf_ten t = list_all (\<lambda>s. length s = dim1 t \<and> list_all (\<lambda>r. length r = dim2 t) s) (slabs t)"

subsection \<open>Vectors\<close>

definition vminus :: "vec \<Rightarrow> vec \<Rightarrow> vec" where
  "vminus u v = map2 (\<lambda>a b. a - b) u v"

definition vplus :: "vec \<Rightarrow> vec \<Rightarrow> vec" where
  "vplus u v = map2 (\<lambda>a b. a + b) u v"

definition smul :: "real \<Rightarrow> vec \<Rightarrow> vec" where
  "smul c v = map (\<lambda>a. c * a) v"

definition dotp :: "vec \<Rightarrow> vec \<Rightarrow> real" where
  "dotp u v = sum_list (map2 (\<lambda>a b. a * b) u v)"

definition sumsq :: "vec \<Rightarrow> real" where
  "sumsq v = sum_list (map (\<lambda>a. a ^ 2) v)"

text \<open>\<open>np.linalg.norm\<close> of a 1-D array.\<close>

definition norm2 :: "vec \<Rightarrow> real" where
  "norm2 v = sqrt (sumsq v)"

text \<open>
  An elementwise binary operation on 1-D arrays: numpy broadcasts an operand of length 1 and
  raises ValueError when the lengths differ otherwise.
\<close>

definition np_binop :: "(real \<Rightarrow> real \<Rightarrow> real) \<Rightarrow> vec \<Rightarrow> vec \<Rightarrow> vec result" where
  "np_binop f u v =
     (if length u = length v then Inr (map2 f u v)
      else if length u = 1 then Inr (map (\<lambda>b. f (u ! 0) b) v)
      else if length v = 1 then Inr (map (\<lambda>a. f a (v ! 0)) u)
      else Inl ValueError)"

text \<open>\<open>np.dot\<close> of two 1-D arrays: the lengths must agree.\<close>

definition np_dot :: "vec \<Rightarrow> vec \<Rightarrow> real result" where
  "np_dot u v = (if length u = length v then Inr (dotp u v) else Inl ValueError)"

text \<open>\<open>m[:, k]\<close>: column \<open>k\<close> of a 2-D array.\<close>

definition column :: "mat \<Rightarrow> nat \<Rightarrow> vec result" where
  "column m k = (if k < ncols m then Inr (map (\<lambda>r. r ! k) (rows m)) else Inl IndexError)"

section \<open>numpy operations on 2-D and 3-D arrays\<close>

text \<open>
  Broadcasting: two axis lengths agree when they are equal or one of them is 1; an array is
  read along an axis of length 1 at index 0.
\<close>

definition bsize :: "nat \<Rightarrow> nat \<Rightarrow> nat option" where
  "bsize a b = (if a = b then Some a else if a = 1 then Some b else if b = 1 then Some a else None)"

definition bidx :: "nat \<Rightarrow> nat \<Rightarrow> nat" where
  "bidx len i = (if len = 1 then 0 else i)"

definition mat_binop :: "(real \<Rightarrow> real \<Rightarrow> real) \<Rightarrow> mat \<Rightarrow> mat \<Rightarrow> mat result" where
  "mat_binop f a b =
     (case bsize (nrows a) (nrows b) of
        None \<Rightarrow> Inl ValueError
      | Some r \<Rightarrow>
          (case bsize (ncols a) (ncols b) of
             None \<Rightarrow> Inl ValueError
           | Some c \<Rightarrow>
               Inr (Mat c (map (\<lambda>i. map (\<lambda>j.
                      f (rows a ! bidx (nrows a) i ! bidx (ncols a) j)
                        (rows b ! bidx (nrows b) i ! bidx (ncols b) j)) [0..<c]) [0..<r]))))"

text \<open>\<open>m.T\<close>, \<open>a @ b\<close>, \<open>a.dot(v)\<close>, \<open>v.dot(b)\<close>, \<open>np.outer\<close> and the Frobenius norm.\<close>

definition mat_T :: "mat \<Rightarrow> mat" where
  "mat_T m = Mat (nrows m) (map (\<lambda>k. map (\<lambda>r. r ! k) (rows m)) [0..<ncols m])"

definition matmul :: "mat \<Rightarrow> mat \<Rightarrow> mat result" where
  "matmul a b =
     (if ncols a = nrows b
      then Inr (Mat (ncols b)
             (map (\<lambda>r. map (\<lambda>k. dotp r (map (\<lambda>s. s ! k) (rows b))) [0..<ncols b]) (rows a)))
      else Inl ValueError)"

definition mat_dot_vec :: "mat \<Rightarrow> vec \<Rightarrow> vec result" where
  "mat_dot_vec a v =
     (if ncols a = length v then Inr (map (\<lambda>r. dotp r v) (rows a)) else Inl ValueError)"

definition vec_dot_mat :: "vec \<Rightarrow> mat \<Rightarrow> vec result" where
  "vec_dot_mat v b =
     (if length v = nrows b
      then Inr (map (\<lambda>k. dotp v (map (\<lambda>s. s ! k) (rows b))) [0..<ncols b])
      else Inl ValueError)"

definition outer :: "vec \<Rightarrow> vec \<Rightarrow> mat" where
  "outer u a = Mat (length a) (map (\<lambda>x. map (\<lambda>y. x * y) a) u)"

definition fro_norm :: "mat \<Rightarrow> real" where
  "fro_norm m = sqrt (sum_list (map sumsq (rows m)))"

definition mscale :: "real \<Rightarrow> mat \<Rightarrow> mat" where
  "mscale c m = Mat (ncols m) (map (map (\<lambda>a. c * a)) (rows m))"

definition tscale :: "real \<Rightarrow> ten \<Rightarrow> ten" where
  "tscale c t = Ten (dim1 t) (dim2 t) (map (map (map (\<lambda>a. c * a))) (slabs t))"

fun amap :: "(real \<Rightarrow> real) \<Rightarrow> ndarray \<Rightarrow> ndarray" where
  "amap f (A0 x) = A0 (f x)"
| "amap f (A1 v) = A1 (map f v)"
| "amap f (A2 m) = A2 (Mat (ncols m) (map (map f) (rows m)))"
| "amap f (A3 t) = A3 (Ten (dim1 t) (dim2 t) (map (map (map f)) (slabs t)))"

text \<open>
  An assignment \<open>target[i] = value\<close> broadcasts the value to the shape of the slot: a 1-D
  value into a slot of shape \<open>(r, c)\<close>, and a 2-D value into such a slot.
\<close>

definition assign_rows :: "nat \<Rightarrow> nat \<Rightarrow> vec \<Rightarrow> vec list result" where
  "assign_rows r c v =
     (if length v = c then Inr (replicate r v)
      else if length v = 1 then Inr (replicate r (replicate c (v ! 0)))
      else Inl ValueError)"

definition assign_mat :: "nat \<Rightarrow> nat \<Rightarrow> mat \<Rightarrow> mat result" where
  "assign_mat r c m =
     (if (nrows m = r \<or> nrows m = 1) \<and> (ncols m = c \<or> ncols m = 1)
      then Inr (Mat c (map (\<lambda>i. map (\<lambda>j.
                  rows m ! bidx (nrows m) i ! bidx (ncols m) j) [0..<c]) [0..<r]))
      else Inl ValueError)"

text \<open>\<open>t[:, :, i]\<close> and \<open>t[i]\<close> of a 3-D array, \<open>m[i]\<close> of a 2-D array.\<close>

definition ten_slice2 :: "ten \<Rightarrow> nat \<Rightarrow> mat result" where
  "ten_slice2 t i =
     (if i < dim2 t then Inr (Mat (dim1 t) (map (map (\<lambda>r. r ! i)) (slabs t))) else Inl IndexError)"

definition ten_index0 :: "ten \<Rightarrow> nat \<Rightarrow> mat result" where
  "ten_index0 t i =
     (if i < length (slabs t) then Inr (Mat (dim2 t) (slabs t ! i)) else Inl IndexError)"

definition mat_row :: "mat \<Rightarrow> nat \<Rightarrow> vec result" where
  "mat_row m i = (if i < nrows m then Inr (rows m ! i) else Inl IndexError)"

text \<open>
  The per-point results \<open>ms ! i\<close>, each of shape \<open>(r, c)\<close>, stored as \<open>ret[:, :, i]\<close> of an
  array of shape \<open>(r, c, n)\<close>.
\<close>

definition stack_last :: "nat \<Rightarrow> nat \<Rightarrow> mat list \<Rightarrow> ten" where
  "stack_last r c ms =
     Ten c (length ms) (map (\<lambda>a. map (\<lambda>b. map (\<lambda>m. rows m ! a ! b) ms) [0..<c]) [0..<r])"

section \<open>utils\_vecCalc.py: the Gaussian kernel\<close>

text \<open>
  \<open>con_K(x, y, beta, method, return_d)\<close> returns \<open>K\<close>, or the pair \<open>(K, D)\<close> when
  \<open>return_d\<close> is set. The decorator \<open>timeit\<close> only measures the call and is left out.

  The first branch is \<open>cdist(x, y, 'sqeuclidean')\<close>, which wants the same number of
  columns in both arguments, flattened when it has one row. The second branch builds the
  difference tensor \<open>D[i, k, j] = x[i, k] - y[j, k]\<close> of shape \<open>(n, d, m)\<close> (the subtraction
  broadcasts the coordinate axis) and squeezes the sum of its squares over the axis 1:
  \<open>np.squeeze\<close> drops every axis of length 1. (\<open>np.matlib.tile\<close> is numpy's \<open>tile\<close>.)
\<close>

datatype con_K_ret = OnlyK ndarray | WithD ndarray ten

definition cdist_sqeuclidean :: "mat \<Rightarrow> mat \<Rightarrow> mat result" where
  "cdist_sqeuclidean x y =
     (if ncols x = ncols y
      then Inr (Mat (nrows y) (map (\<lambda>xi. map (\<lambda>yj. sumsq (vminus xi yj)) (rows y)) (rows x)))
      else Inl ValueError)"

definition pairwise_diff :: "mat \<Rightarrow> mat \<Rightarrow> ten result" where
  "pairwise_diff x y =
     (case bsize (ncols x) (ncols y) of
        None \<Rightarrow> Inl ValueError
      | Some d \<Rightarrow>
          Inr (Ten d (nrows y)
                (map (\<lambda>xi. map (\<lambda>k. map (\<lambda>yj.
                        xi ! bidx (ncols x) k - yj ! bidx (ncols y) k) (rows y)) [0..<d]) (rows x))))"

definition sum_sq_axis1 :: "ten \<Rightarrow> mat" where
  "sum_sq_axis1 D =
     Mat (dim2 D) (map (\<lambda>slab. map (\<lambda>j. sum_list (map (\<lambda>row. (row ! j) ^ 2) slab)) [0..<dim2 D]) (slabs D))"

definition squeeze2 :: "mat \<Rightarrow> ndarray" where
  "squeeze2 K =
     (if nrows K = 1 \<and> ncols K = 1 then A0 (rows K ! 0 ! 0)
      else if nrows K = 1 then A1 (rows K ! 0)
      else if ncols K = 1 then A1 (map (\<lambda>r. r ! 0) (rows K))
      else A2 K)"

definition con_K :: "mat \<Rightarrow> mat \<Rightarrow> real \<Rightarrow> string \<Rightarrow> bool \<Rightarrow> con_K_ret result" where
  "con_K x y beta method return_d =
     (if method = ''cdist'' \<and> \<not> return_d then
        seq (cdist_sqeuclidean x y) (\<lambda>K.
        let K = (if nrows K = 1 then A1 (concat (rows K)) else A2 K);
            K = amap (\<lambda>k. - beta * k) K;
            K = amap exp K
        in Inr (OnlyK K))
      else
        seq (pairwise_diff x y) (\<lambda>D.
        let K = squeeze2 (sum_sq_axis1 D);
            K = amap (\<lambda>k. - beta * k) K;
            K = amap exp K
        in if return_d then Inr (WithD K D) else Inr (OnlyK K)))"

text \<open>The Gaussian kernel value the documentation of \<open>con_K\<close> states.\<close>

definition gauss :: "real \<Rightarrow> vec \<Rightarrow> vec \<Rightarrow> real" where
  "gauss beta xi yj = exp (- beta * sumsq (vminus xi yj))"

definition gauss_matrix :: "real \<Rightarrow> mat \<Rightarrow> mat \<Rightarrow> mat" where
  "gauss_matrix beta x y = Mat (nrows y) (map (\<lambda>xi. map (\<lambda>yj. gauss beta xi yj) (rows y)) (rows x))"

section \<open>utils\_vecCalc.py: the vector field and its analytical Jacobian\<close>

text \<open>
  The fitted model is a dictionary; a key that is absent is \<open>None\<close> here and reading it
  raises KeyError. Of the key \<open>div_cur_free_kernels\<close> the code only tests the presence.
\<close>

record vf_dict =
  vf_X_ctrl :: "mat option"
  vf_beta :: "real option"
  vf_C :: "mat option"
  vf_sigma :: "real option"
  vf_eta :: "real option"
  vf_div_cur_free_kernels :: "bool option"

definition lookup :: "'a option \<Rightarrow> 'a result" where
  "lookup v = (case v of None \<Rightarrow> Inl KeyError | Some a \<Rightarrow> Inr a)"

text \<open>The argument \<open>x\<close> is one point (a 1-D array) or a matrix of points.\<close>

datatype points = Point vec | Points mat

definition atleast_2d :: "points \<Rightarrow> mat" where
  "atleast_2d x = (case x of Point v \<Rightarrow> Mat (length v) [v] | Points m \<Rightarrow> m)"

text \<open>
  \<open>C.T * K\<close> for the kernel \<open>K\<close> that \<open>con_K\<close> returned: a 0-D array is the matrix
  \<open>[[k]]\<close> and a 1-D array a single row when numpy broadcasts them against a matrix.
  (\<open>squeeze2\<close> returns no 3-D array.)
\<close>

definition mat_times :: "mat \<Rightarrow> ndarray \<Rightarrow> mat result" where
  "mat_times m K =
     (case K of
        A0 k \<Rightarrow> mat_binop (\<lambda>a b. a * b) m (Mat 1 [[k]])
      | A1 v \<Rightarrow> mat_binop (\<lambda>a b. a * b) m (Mat (length v) [v])
      | A2 k \<Rightarrow> mat_binop (\<lambda>a b. a * b) m k
      | A3 _ \<Rightarrow> Inl ValueError)"

text \<open>
  The statements \<open>K, D = con_K(xi[None, :], X_ctrl, beta, return_d=True)\<close> and
  \<open>(C.T * K) @ D[0].T\<close> of one point.
\<close>

definition jac_point :: "vf_dict \<Rightarrow> vec \<Rightarrow> mat result" where
  "jac_point vf xi =
     seq (lookup (vf_X_ctrl vf)) (\<lambda>Xc.
     seq (lookup (vf_beta vf)) (\<lambda>b.
     seq (con_K (Mat (length xi) [xi]) Xc b ''cdist'' True) (\<lambda>r.
       case r of
         OnlyK _ \<Rightarrow> Inl TypeError
       | WithD K D \<Rightarrow>
           seq (lookup (vf_C vf)) (\<lambda>Cm.
           seq (mat_times (mat_T Cm) K) (\<lambda>CK.
           seq (ten_index0 D 0) (\<lambda>D0.
           matmul CK (mat_T D0)))))))"

text \<open>
  \<open>np.einsum('nm, mi, njm -> ijn', K, C, D)\<close>. The first operand must be 2-D; equal
  labels must have sizes that broadcast.
\<close>

definition einsum_nm_mi_njm :: "ndarray \<Rightarrow> mat \<Rightarrow> ten \<Rightarrow> ten result" where
  "einsum_nm_mi_njm K Cm D =
     (case K of
        A2 Km \<Rightarrow>
          (case bsize (nrows Km) (length (slabs D)) of
             None \<Rightarrow> Inl ValueError
           | Some N \<Rightarrow>
               (case Option.bind (bsize (ncols Km) (nrows Cm)) (\<lambda>s. bsize s (dim2 D)) of
                  None \<Rightarrow> Inl ValueError
                | Some M \<Rightarrow>
                    Inr (Ten (dim1 D) N
                      (map (\<lambda>i. map (\<lambda>j. map (\<lambda>n.
                         sum_list (map (\<lambda>m.
                             rows Km ! bidx (nrows Km) n ! bidx (ncols Km) m
                           * (rows Cm ! bidx (nrows Cm) m ! i)
                           * (slabs D ! bidx (length (slabs D)) n ! j ! bidx (dim2 D) m)) [0..<M]))
                         [0..<N]) [0..<dim1 D]) [0..<ncols Cm]))))
      | _ \<Rightarrow> Inl ValueError)"

definition Jacobian_rkhs_gaussian :: "points \<Rightarrow> vf_dict \<Rightarrow> bool \<Rightarrow> ndarray result" where
  "Jacobian_rkhs_gaussian x vf vectorize =
     (case x of
        Point xv \<Rightarrow>
          seq (jac_point vf xv) (\<lambda>J.
          seq (lookup (vf_beta vf)) (\<lambda>b. Inr (A2 (mscale (- 2 * b) J))))
      | Points xm \<Rightarrow>
          if \<not> vectorize then
            (let n = nrows xm; d = ncols xm in
             seq (map_result (\<lambda>xi. seq (jac_point vf xi) (assign_mat d d)) (rows xm)) (\<lambda>Js.
             seq (lookup (vf_beta vf)) (\<lambda>b. Inr (A3 (tscale (- 2 * b) (stack_last d d Js))))))
          else
            seq (lookup (vf_X_ctrl vf)) (\<lambda>Xc.
            seq (lookup (vf_beta vf)) (\<lambda>b.
            seq (con_K xm Xc b ''cdist'' True) (\<lambda>r.
              case r of
                OnlyK _ \<Rightarrow> Inl TypeError
              | WithD K D \<Rightarrow>
                  (let K = (case K of A1 v \<Rightarrow> A2 (Mat (length v) [v]) | _ \<Rightarrow> K) in
                   seq (lookup (vf_C vf)) (\<lambda>Cm.
                   seq (einsum_nm_mi_njm K Cm D) (\<lambda>J.
                   seq (lookup (vf_beta vf)) (\<lambda>b. Inr (A3 (tscale (- 2 * b) J))))))))))"

text \<open>
  The closed form of the documentation, \<open>-2 beta (C\<^sup>T * K) D\<^sup>T\<close> at every point: the
  entry \<open>(i, j)\<close> at the point \<open>xp\<close> sums, over the control points \<open>q\<close>, the product of
  \<open>C[q, i]\<close>, the kernel value and \<open>xp[j] - X_ctrl[q, j]\<close>.
\<close>

definition kernel_sum :: "real \<Rightarrow> mat \<Rightarrow> mat \<Rightarrow> vec \<Rightarrow> nat \<Rightarrow> nat \<Rightarrow> real" where
  "kernel_sum b Xc Cm xp i j =
     sum_list (map (\<lambda>q. rows Cm ! q ! i * gauss b xp (rows Xc ! q) * (xp ! j - rows Xc ! q ! j))
                [0..<nrows Xc])"

definition jac_closed_form :: "real \<Rightarrow> mat \<Rightarrow> mat \<Rightarrow> mat \<Rightarrow> ten" where
  "jac_closed_form b Xc Cm x =
     Ten (ncols x) (nrows x)
       (map (\<lambda>i. map (\<lambda>j. map (\<lambda>xp. - 2 * b * kernel_sum b Xc Cm xp i j) (rows x))
                          [0..<ncols x]) [0..<ncols x])"

text \<open>
  \<open>K.dot(c)\<close> for the kernel \<open>K\<close> and a matrix or a vector \<open>c\<close>. A kernel that \<open>con_K\<close>
  has squeezed to 0-D has passed through \<open>-beta * K\<close> and \<open>np.exp\<close>, which turn a 0-D array
  into the scalar \<open>numpy.float64\<close>, and a scalar has no method \<open>dot\<close>: the call raises
  AttributeError. (No operand is 3-D here.)
\<close>

definition nd_dot :: "ndarray \<Rightarrow> ndarray \<Rightarrow> ndarray result" where
  "nd_dot K c =
     (case (K, c) of
        (A0 k, _) \<Rightarrow> Inl AttributeError
      | (A1 u, A1 v) \<Rightarrow> seq (np_dot u v) (\<lambda>s. Inr (A0 s))
      | (A1 u, A2 m) \<Rightarrow> seq (vec_dot_mat u m) (\<lambda>w. Inr (A1 w))
      | (A2 k, A1 v) \<Rightarrow> seq (mat_dot_vec k v) (\<lambda>w. Inr (A1 w))
      | (A2 k, A2 m) \<Rightarrow> seq (matmul k m) (\<lambda>w. Inr (A2 w))
      | _ \<Rightarrow> Inl ValueError)"

text \<open>\<open>m[:, k]\<close> for a Python integer \<open>k\<close>: a negative index counts from the end.\<close>

definition column_py :: "mat \<Rightarrow> int \<Rightarrow> vec result" where
  "column_py m k =
     (let c = int (ncols m); j = (if k < 0 then c + k else k)
      in if 0 \<le> j \<and> j < c then column m (nat j) else Inl IndexError)"

text \<open>
  \<open>vector_field_function(x, vf_dict, dim, kernel, **kernel_kwargs)\<close>. The keyword arguments
  that \<open>con_K\<close> takes are \<open>method\<close> and \<open>return_d\<close>; \<open>con_K_div_cur_free\<close> takes none
  and raises TypeError for any.

  \<open>con_K_div_cur_free\<close>, which builds the three block kernels \<open>(G, df_kernel, cf_kernel)\<close>
  of a model with divergence-free and curl-free kernels, is the parameter \<open>ckdcf\<close>;
  \<open>dim'\<close> and \<open>kernel'\<close> are the arguments \<open>dim\<close> and \<open>kernel\<close>.
\<close>

record kernel_kwargs =
  kw_method :: "string option"
  kw_return_d :: "bool option"

definition vector_field_function ::
  "(mat \<Rightarrow> mat \<Rightarrow> real \<Rightarrow> real \<Rightarrow> (mat \<times> mat \<times> mat) result) \<Rightarrow>
   points \<Rightarrow> vf_dict \<Rightarrow> int option \<Rightarrow> string \<Rightarrow> kernel_kwargs \<Rightarrow> ndarray result" where
  "vector_field_function ckdcf x vf dim' kernel' kwargs =
     (let has_div_cur_free_kernels = (vf_div_cur_free_kernels vf \<noteq> None);
          x = atleast_2d x
      in
      seq (if has_div_cur_free_kernels then
             seq (if kernel' = ''full'' then Inr (0::nat)
                  else if kernel' = ''df_kernel'' then Inr 1
                  else if kernel' = ''cf_kernel'' then Inr 2
                  else Inl ValueError) (\<lambda>kernel_ind.
             seq (lookup (vf_X_ctrl vf)) (\<lambda>Xc.
             seq (lookup (vf_sigma vf)) (\<lambda>s.
             seq (lookup (vf_eta vf)) (\<lambda>e.
             if kw_method kwargs \<noteq> None \<or> kw_return_d kwargs \<noteq> None then Inl TypeError
             else seq (ckdcf x Xc s e) (\<lambda>(G, df_kernel, cf_kernel).
                    Inr (OnlyK (A2 ([G, df_kernel, cf_kernel] ! kernel_ind))))))))
           else
             seq (lookup (vf_X_ctrl vf)) (\<lambda>Xc.
             seq (lookup (vf_beta vf)) (\<lambda>b.
             con_K x Xc b (case kw_method kwargs of None \<Rightarrow> ''cdist'' | Some m \<Rightarrow> m)
                          (case kw_return_d kwargs of None \<Rightarrow> False | Some r \<Rightarrow> r))))
        (\<lambda>r. case r of
           WithD _ _ \<Rightarrow> Inl AttributeError
         | OnlyK K \<Rightarrow>
             if dim' = None \<or> has_div_cur_free_kernels then
               seq (lookup (vf_C vf)) (\<lambda>Cm. nd_dot K (A2 Cm))
             else
               seq (lookup (vf_C vf)) (\<lambda>Cm.
               seq (column_py Cm (the dim')) (\<lambda>c. nd_dot K (A1 c)))))"

text \<open>
  The Gaussian kernel field at the point \<open>xi\<close>: the entry \<open>k\<close> sums, over the control
  points \<open>q\<close>, the kernel value \<open>exp(-beta |xi - X_ctrl[q]|\<^sup>2)\<close> times \<open>C[q, k]\<close>.
\<close>

definition gauss_field :: "real \<Rightarrow> mat \<Rightarrow> mat \<Rightarrow> vec \<Rightarrow> vec" where
  "gauss_field b Xc Cm xi =
     map (\<lambda>k. sum_list (map (\<lambda>q. gauss b xi (rows Xc ! q) * (rows Cm ! q ! k)) [0..<nrows Xc]))
       [0..<ncols Cm]"

section \<open>utils\_vecCalc.py: acceleration, curvature, torsion and curl\<close>

text \<open>
  The functions \<open>acceleration_\<close>, \<open>curvature_\<close> and \<open>torsion_\<close> of the source are
  \<open>acceleration'\<close>, \<open>curvature'\<close> and \<open>torsion'\<close> here.

  \<open>acceleration_(v, J)\<close> for a 1-D \<open>v\<close>: \<open>J.dot(v[:, None])\<close>, a matrix with one column.
\<close>

definition acceleration' :: "vec \<Rightarrow> mat \<Rightarrow> mat result" where
  "acceleration' v J = seq (mat_dot_vec J v) (\<lambda>w. Inr (Mat 1 (map (\<lambda>a. [a]) w)))"

text \<open>
  \<open>curvature_(a, v)\<close>: for a 1-D \<open>v\<close> the Frobenius norm of \<open>np.outer(v[:, None], a)\<close>
  over the cube of the norm of \<open>v\<close>; the other branch calls \<open>v.outer\<close>, an attribute
  that an array does not have.
\<close>

definition curvature' :: "vec \<Rightarrow> ndarray \<Rightarrow> real result" where
  "curvature' a v =
     (case v of
        A1 w \<Rightarrow> Inr (fro_norm (outer w a) / norm2 w ^ 3)
      | _ \<Rightarrow> Inl AttributeError)"

text \<open>
  \<open>torsion_(v, J, a)\<close>: \<open>np.outer(v, a).dot(J.dot(a)) / np.linalg.norm(np.outer(v, a))**2\<close>
  (both branches of the source compute this for a 1-D \<open>v\<close>, since \<open>np.outer\<close> flattens
  its arguments).
\<close>

definition torsion' :: "vec \<Rightarrow> mat \<Rightarrow> vec \<Rightarrow> vec result" where
  "torsion' v J a =
     seq (mat_dot_vec J a) (\<lambda>Ja.
     seq (mat_dot_vec (outer v a) Ja) (\<lambda>r.
     Inr (map (\<lambda>x. x / fro_norm (outer v a) ^ 2) r)))"

text \<open>A 1-D value assigned to a row of length \<open>c\<close>.\<close>

definition assign_vec :: "nat \<Rightarrow> vec \<Rightarrow> vec result" where
  "assign_vec c v =
     (if length v = c then Inr v
      else if length v = 1 then Inr (replicate c (v ! 0))
      else Inl ValueError)"

text \<open>
  \<open>compute_acceleration(vf, f_jac, X, return_all)\<close>: the vector field \<open>vf\<close> maps the
  points to their velocities, one row each, and \<open>f_jac\<close> to their Jacobians, of shape
  \<open>(d, d, n)\<close>.
\<close>

datatype acce_ret = Acce mat | AcceAll mat ten mat

definition compute_acceleration ::
  "(mat \<Rightarrow> mat result) \<Rightarrow> (mat \<Rightarrow> ten result) \<Rightarrow> mat \<Rightarrow> bool \<Rightarrow> acce_ret result" where
  "compute_acceleration vf f_jac X return_all =
     (let n = nrows X in
      seq (vf X) (\<lambda>vs.
      seq (f_jac X) (\<lambda>Jt.
      seq (map_result (\<lambda>i.
             seq (mat_row vs i) (\<lambda>v.
             seq (ten_slice2 Jt i) (\<lambda>J.
             seq (acceleration' v J) (\<lambda>a. assign_vec (ncols X) (concat (rows a))))))
           [0..<n]) (\<lambda>acce.
      if return_all then Inr (AcceAll vs Jt (Mat (ncols X) acce))
      else Inr (Acce (Mat (ncols X) acce))))))"

definition compute_curvature ::
  "(mat \<Rightarrow> mat result) \<Rightarrow> (mat \<Rightarrow> ten result) \<Rightarrow> mat \<Rightarrow> vec result" where
  "compute_curvature vf f_jac X =
     (let n = nrows X in
      seq (compute_acceleration vf f_jac X True) (\<lambda>r.
        case r of
          Acce _ \<Rightarrow> Inl TypeError
        | AcceAll v _ a \<Rightarrow>
            map_result (\<lambda>i.
              seq (mat_row a i) (\<lambda>ai.
              seq (mat_row v i) (\<lambda>vi. curvature' ai (A1 vi))))
            [0..<n]))"

text \<open>
  \<open>compute_torsion(vf, f_jac, X)\<close>: the result array \<open>tor\<close> has the shape \<open>(n, 3, 3)\<close>,
  and \<open>tor[i]\<close> takes what \<open>torsion_\<close> returns for the point \<open>i\<close>.
\<close>

definition compute_torsion ::
  "(mat \<Rightarrow> mat result) \<Rightarrow> (mat \<Rightarrow> ten result) \<Rightarrow> mat \<Rightarrow> ten result" where
  "compute_torsion vf f_jac X =
     (if ncols X \<noteq> 3 then Inl PyException
      else
        (let n = nrows X in
         seq (compute_acceleration vf f_jac X True) (\<lambda>r.
           case r of
             Acce _ \<Rightarrow> Inl TypeError
           | AcceAll v J a \<Rightarrow>
               seq (map_result (\<lambda>i.
                      seq (mat_row v i) (\<lambda>vi.
                      seq (ten_slice2 J i) (\<lambda>Ji.
                      seq (mat_row a i) (\<lambda>ai.
                      seq (torsion' vi Ji ai) (assign_rows (ncols X) (ncols X))))))
                    [0..<n]) (\<lambda>tor. Inr (Ten (ncols X) (ncols X) tor)))))"

text \<open>
  \<open>_curl\<close> (here \<open>u_curl\<close>) and \<open>curl2d\<close>, for the Jacobian \<open>jac\<close> that
  \<open>compute_curl\<close> always passes; their branch \<open>jac is None\<close> is not entered from it.
\<close>

definition mat_at :: "mat \<Rightarrow> nat \<Rightarrow> nat \<Rightarrow> real result" where
  "mat_at m i j = (if i < nrows m \<and> j < ncols m then Inr (rows m ! i ! j) else Inl IndexError)"

definition u_curl :: "mat \<Rightarrow> vec result" where
  "u_curl jac =
     seq (mat_at jac 2 1) (\<lambda>j21. seq (mat_at jac 1 2) (\<lambda>j12.
     seq (mat_at jac 0 2) (\<lambda>j02. seq (mat_at jac 2 0) (\<lambda>j20.
     seq (mat_at jac 1 0) (\<lambda>j10. seq (mat_at jac 0 1) (\<lambda>j01.
     Inr [j21 - j12, j02 - j20, j10 - j01]))))))"

definition curl2d :: "mat \<Rightarrow> real result" where
  "curl2d jac =
     seq (mat_at jac 1 0) (\<lambda>j10. seq (mat_at jac 0 1) (\<lambda>j01. Inr (j10 - j01)))"

text \<open>
  \<open>compute_curl(f_jac, X)\<close>: \<open>f_jac\<close> is called on one point at a time. In two dimensions
  the result array has the shape \<open>(n,)\<close>, otherwise \<open>(n, 2, 2)\<close>.
\<close>

definition compute_curl :: "(vec \<Rightarrow> mat result) \<Rightarrow> mat \<Rightarrow> ndarray result" where
  "compute_curl f_jac X =
     (if ncols X > 3 then Inl PyException
      else
        (let n = nrows X in
         if ncols X = 2 then
           seq (map_result (\<lambda>i.
                  seq (mat_row X i) (\<lambda>xi. seq (f_jac xi) curl2d)) [0..<n])
               (\<lambda>curl. Inr (A1 curl))
         else
           seq (map_result (\<lambda>i.
                  seq (mat_row X i) (\<lambda>xi.
                  seq (f_jac xi) (\<lambda>J.
                  seq (u_curl J) (assign_rows 2 2)))) [0..<n])
               (\<lambda>curl. Inr (A3 (Ten 2 2 curl)))))"

text \<open>The vector product of two 3-D vectors, which the documented formulas use.\<close>

definition cross3 :: "vec \<Rightarrow> vec \<Rightarrow> vec" where
  "cross3 v a =
     [v ! 1 * a ! 2 - v ! 2 * a ! 1, v ! 2 * a ! 0 - v ! 0 * a ! 2, v ! 0 * a ! 1 - v ! 1 * a ! 0]"

section \<open>vector\_calculus.py: the Jacobian in the original space\<close>

text \<open>
  \<open>transform_jacobian(Js, Qi, Qj)\<close>: \<open>ret[:, :, i] = Qi @ Js[:, :, i] @ Qj.T\<close> for every
  point \<open>i\<close> (the argument \<open>pbar\<close> only selects a progress bar); \<open>transform_point\<close> is
  the body of the loop.
\<close>

definition transform_point :: "ten \<Rightarrow> mat \<Rightarrow> mat \<Rightarrow> nat \<Rightarrow> mat result" where
  "transform_point Js Qi Qj i =
     seq (ten_slice2 Js i) (\<lambda>J.
     seq (matmul Qi J) (\<lambda>QJ. matmul QJ (mat_T Qj)))"

definition transform_jacobian :: "ten \<Rightarrow> mat \<Rightarrow> mat \<Rightarrow> ten result" where
  "transform_jacobian Js Qi Qj =
     (let d1 = nrows Qi; d2 = nrows Qj; n = dim2 Js in
      seq (map_result (transform_point Js Qi Qj) [0..<n])
          (\<lambda>ms. Inr (stack_last d1 d2 ms)))"

text \<open>
  \<open>Js[:, :, i:i+k]\<close>, \<open>range(0, n, k)\<close> for \<open>k > 0\<close>, \<open>np.transpose\<close> with the axes
  \<open>(2, 0, 1)\<close> and \<open>(1, 2, 0)\<close>, and \<open>np.vstack\<close> of a list of 3-D arrays, which raises
  ValueError for an empty list and for arrays whose trailing axes differ.
\<close>

definition ten_chunk :: "ten \<Rightarrow> nat \<Rightarrow> nat \<Rightarrow> ten" where
  "ten_chunk t i k = Ten (dim1 t) (min k (dim2 t - i)) (map (map (\<lambda>r. take k (drop i r))) (slabs t))"

definition range_step :: "nat \<Rightarrow> nat \<Rightarrow> nat list" where
  "range_step n k = map (\<lambda>j. j * k) [0..<(n + k - 1) div k]"

definition transpose_201 :: "ten \<Rightarrow> ten" where
  "transpose_201 t =
     Ten (length (slabs t)) (dim1 t)
       (map (\<lambda>i. map (\<lambda>a. map (\<lambda>b. slabs t ! a ! b ! i) [0..<dim1 t]) [0..<length (slabs t)])
         [0..<dim2 t])"

definition transpose_120 :: "ten \<Rightarrow> ten" where
  "transpose_120 t =
     Ten (dim2 t) (length (slabs t))
       (map (\<lambda>a. map (\<lambda>b. map (\<lambda>i. slabs t ! i ! a ! b) [0..<length (slabs t)]) [0..<dim2 t])
         [0..<dim1 t])"

text \<open>The \<open>r \<times> c\<close> entries of the result for one point.\<close>

definition entries :: "nat \<Rightarrow> nat \<Rightarrow> mat \<Rightarrow> vec list" where
  "entries r c m = map (\<lambda>a. map (\<lambda>b. rows m ! a ! b) [0..<c]) [0..<r]"

definition vstack :: "ten list \<Rightarrow> ten result" where
  "vstack ts =
     (case ts of
        [] \<Rightarrow> Inl ValueError
      | t # _ \<Rightarrow>
          if list_all (\<lambda>u. dim1 u = dim1 t \<and> dim2 u = dim2 t) ts
          then Inr (Ten (dim1 t) (dim2 t) (concat (map slabs ts)))
          else Inl ValueError)"

text \<open>
  \<open>subset_jacobian_transformation(fjac, X, Qi, Qj, cores, return_J)\<close>. With \<open>cores == 1\<close>
  it calls \<open>transform_jacobian\<close> once. Otherwise it cuts the point axis of \<open>Js\<close> into chunks
  of \<open>int(np.ceil(n / cores))\<close> points, maps \<open>transform_jacobian\<close> over them in a process
  pool (\<open>starmap\<close> returns the results in the order of the chunks) and stacks the results.
  \<open>cores\<close> may be \<open>None\<close>, which stands for the number of processors \<open>cpu_count\<close> of
  the machine. \<open>range\<close> raises ValueError for a step of zero and is empty for a negative one;
  \<open>mp.Pool\<close> raises ValueError for fewer than one process.
\<close>

datatype sjt_ret = Ret ten | RetJ ten ten

definition subset_jacobian_transformation ::
  "nat \<Rightarrow> (mat \<Rightarrow> ten result) \<Rightarrow> points \<Rightarrow> points \<Rightarrow> points \<Rightarrow> int option \<Rightarrow> bool \<Rightarrow> sjt_ret result" where
  "subset_jacobian_transformation cpu_count fjac X Qi Qj cores return_J =
     (let X = atleast_2d X; Qi = atleast_2d Qi; Qj = atleast_2d Qj; n = nrows X in
      seq (fjac X) (\<lambda>Js.
      seq (if cores = Some 1 then transform_jacobian Js Qi Qj
           else
             (let cores = (case cores of None \<Rightarrow> int cpu_count | Some c \<Rightarrow> c) in
              if cores = 0 then Inl ZeroDivisionError
              else
                (let n_j_per_core = \<lceil>real n / real_of_int cores\<rceil> in
                 if n_j_per_core = 0 then Inl ValueError
                 else
                   (let JJ = (if n_j_per_core < 0 then []
                              else map (\<lambda>i. ten_chunk Js i (nat n_j_per_core))
                                     (range_step n (nat n_j_per_core)))
                    in
                    if cores < 1 then Inl ValueError
                    else
                      seq (map_result (\<lambda>J. transform_jacobian J Qi Qj) JJ) (\<lambda>ret.
                      seq (vstack (map transpose_201 ret)) (\<lambda>stacked.
                      Inr (transpose_120 stacked)))))))
          (\<lambda>ret. if return_J then Inr (RetJ ret Js) else Inr (Ret ret))))"

section \<open>pseudotime.py: projection onto a tree edge\<close>

text \<open>
  \<open>project_point_to_line_segment(p, df)\<close>: \<open>df\<close> holds the end points of the segment as
  its columns 0 and 1.
\<close>

definition project_point_to_line_segment :: "vec \<Rightarrow> mat \<Rightarrow> vec result" where
  "project_point_to_line_segment p df =
     seq (column df 0) (\<lambda>A.
     seq (column df 1) (\<lambda>B.
     seq (np_binop (\<lambda>a b. a - b) B A) (\<lambda>AB.
     let AB_squared = sumsq AB in
     if AB_squared = 0 then Inr A
     else
       seq (np_binop (\<lambda>a b. a - b) p A) (\<lambda>Ap.
       seq (np_dot Ap AB) (\<lambda>d.
       let t = d / AB_squared in
       if t < 0 then Inr A
       else if t > 1 then Inr B
       else np_binop (\<lambda>a b. a + b) A (smul t AB))))))"

text \<open>The point \<open>A + s (B - A)\<close> of the line through \<open>A\<close> and \<open>B\<close>, and the Euclidean distance.\<close>

definition lerp :: "vec \<Rightarrow> vec \<Rightarrow> real \<Rightarrow> vec" where
  "lerp A B s = vplus A (smul s (vminus B A))"

definition euclidean :: "vec \<Rightarrow> vec \<Rightarrow> real" where
  "euclidean u v = norm2 (vminus u v)"

text \<open>
  The two end points of the segment, and the projection parameter before it is clamped
  (it is meant only where the end points differ).
\<close>

definition seg_A :: "mat \<Rightarrow> vec" where
  "seg_A df = map (\<lambda>r. r ! 0) (rows df)"

definition seg_B :: "mat \<Rightarrow> vec" where
  "seg_B df = map (\<lambda>r. r ! 1) (rows df)"

definition proj_param :: "vec \<Rightarrow> mat \<Rightarrow> real" where
  "proj_param p df =
     dotp (vminus p (seg_A df)) (vminus (seg_B df) (seg_A df)) / sumsq (vminus (seg_B df) (seg_A df))"

section \<open>pseudotime.py: the ordering along the tree\<close>

text \<open>
  The graph library. \<open>ig.Graph.Weighted_Adjacency(matrix=m)\<close> builds a directed graph with
  one vertex for every row of the square matrix \<open>m\<close> and an edge from \<open>i\<close> to \<open>j\<close> for every
  entry \<open>m[i, j]\<close> that is not zero; a graph is this matrix here. The calls the code makes
  ignore the direction of the edges: \<open>neighbors(v, mode="all")\<close> lists the neighbours of \<open>v\<close>
  along edges of either direction by ascending vertex id, and \<open>degree(v)\<close> counts the edges
  at \<open>v\<close>.
\<close>

definition Weighted_Adjacency :: "mat \<Rightarrow> mat result" where
  "Weighted_Adjacency m = (if ncols m = nrows m then Inr m else Inl ValueError)"

definition vcount :: "mat \<Rightarrow> nat" where
  "vcount g = nrows g"

definition neighbors :: "mat \<Rightarrow> nat \<Rightarrow> nat list" where
  "neighbors g v =
     concat (map (\<lambda>j. (if rows g ! v ! j \<noteq> 0 then [j] else []) @
                       (if rows g ! j ! v \<noteq> 0 then [j] else [])) [0..<vcount g])"

definition degree :: "mat \<Rightarrow> nat \<Rightarrow> nat" where
  "degree g v = length (neighbors g v)"

text \<open>
  \<open>Graph.dfs(vid, mode="all")\<close> of python-igraph keeps a stack of pairs of a vertex and the
  neighbours of it that are still to be tried, which it takes from the end of the list. It
  returns the vertices in the order of the visit and, beside each, the vertex from which it
  was reached; beside the root stands \<open>-1\<close>. The head of the list \<open>stack\<close> is the top of
  the stack.
\<close>

lemma unvisited_decreases:
  "i < length added \<Longrightarrow> \<not> added ! i \<Longrightarrow>
     length (filter Not (added[i := True])) < length (filter Not added)"
proof (induction added arbitrary: i)
  case Nil
  then show ?case by simp
next
  case (Cons a as)
  show ?case
  proof (cases i)
    case 0
    with Cons.prems show ?thesis by simp
  next
    case (Suc k)
    with Cons.prems Cons.IH[of k] show ?thesis by simp
  qed
qed

function dfs_loop ::
  "mat \<Rightarrow> bool list \<Rightarrow> (nat \<times> nat list) list \<Rightarrow> nat list \<Rightarrow> int list \<Rightarrow> (nat list \<times> int list) result" where
  "dfs_loop g added [] vids parents = Inr (vids, parents)"
| "dfs_loop g added ((vid, nbrs) # stack) vids parents =
     (if nbrs = [] then dfs_loop g added stack vids parents
      else if \<not> last nbrs < length added then Inl IndexError
      else if \<not> added ! last nbrs then
        dfs_loop g (added[last nbrs := True])
          ((last nbrs, neighbors g (last nbrs)) # (vid, butlast nbrs) # stack)
          (vids @ [last nbrs]) (parents @ [int vid])
      else dfs_loop g added ((vid, butlast nbrs) # stack) vids parents)"
  by pat_completeness auto
termination
  by (relation "measures [\<lambda>(g, added, stack, vids, parents). length (filter Not added),
                          \<lambda>(g, added, stack, vids, parents).
                             sum_list (map (\<lambda>(v, ns). Suc (length ns)) stack)]")
     (auto simp: unvisited_decreases)

definition dfs :: "mat \<Rightarrow> nat \<Rightarrow> (nat list \<times> int list) result" where
  "dfs g vid =
     (if vid < vcount g
      then dfs_loop g ((replicate (vcount g) False)[vid := True]) [(vid, neighbors g vid)] [vid] [- 1]
      else Inl ValueError)"

text \<open>
  \<open>get_order_from_DDRTree(dp, mst, root_cell)\<close>. A row of the ordering table; the table is
  sorted by \<open>cell_index\<close> at the end.
\<close>

record ordering_row =
  cell_index :: nat
  cell_pseudo_state :: nat
  pseudo_time :: real
  parent :: int

definition list_get :: "'a list \<Rightarrow> nat \<Rightarrow> 'a result" where
  "list_get xs i = (if i < length xs then Inr (xs ! i) else Inl IndexError)"

definition list_set :: "'a list \<Rightarrow> nat \<Rightarrow> 'a \<Rightarrow> 'a list result" where
  "list_set xs i v = (if i < length xs then Inr (xs[i := v]) else Inl IndexError)"

text \<open>
  The loop over the visit: \<open>curr_node = orders[i]\<close> and \<open>pres[i]\<close> come as a pair, the state
  is \<open>curr_state\<close>, \<open>pseudotimes\<close> and the rows appended so far. Inside the branch
  \<open>pres[i] > 0\<close> the parent is a positive integer, read as the index \<open>nat pre\<close>.
\<close>

fun order_loop ::
  "mat \<Rightarrow> mat \<Rightarrow> (nat \<times> int) list \<Rightarrow> nat \<times> real list \<times> ordering_row list \<Rightarrow>
     (nat \<times> real list \<times> ordering_row list) result" where
  "order_loop dp dp_mst [] st = Inr st"
| "order_loop dp dp_mst ((curr_node, pre) # rest) (curr_state, pseudotimes, tab) =
     seq (if pre > 0 then
            seq (list_get pseudotimes (nat pre)) (\<lambda>parent_node_pseudotime.
            seq (mat_at dp curr_node (nat pre)) (\<lambda>d.
            Inr (pre, parent_node_pseudotime + d,
                 if degree dp_mst (nat pre) > 2 then curr_state + 1 else curr_state)))
          else Inr (- 1, 0, curr_state))
       (\<lambda>(parent_node, curr_node_pseudotime, curr_state).
          seq (list_set pseudotimes curr_node curr_node_pseudotime) (\<lambda>pseudotimes.
          order_loop dp dp_mst rest
            (curr_state, pseudotimes,
             tab @ [\<lparr>cell_index = curr_node, cell_pseudo_state = curr_state,
                     pseudo_time = pseudotimes ! curr_node, parent = parent_node\<rparr>])))"

definition get_order_from_DDRTree :: "mat \<Rightarrow> mat \<Rightarrow> nat \<Rightarrow> ordering_row list result" where
  "get_order_from_DDRTree dp mst root_cell =
     seq (Weighted_Adjacency mst) (\<lambda>dp_mst.
     seq (dfs dp_mst root_cell) (\<lambda>(orders, pres).
     seq (order_loop dp dp_mst (zip orders pres) (0, replicate (ncols dp) 0, [])) (\<lambda>(curr_state, pseudotimes, tab).
     Inr (sort_key cell_index tab))))"

section \<open>pseudotime.py: the projection onto the tree and the final ordering\<close>

text \<open>
  scipy's \<open>distance.cdist(a, b)\<close> with the Euclidean metric (the rows of \<open>a\<close> and \<open>b\<close> are the
  points), \<open>distance.euclidean\<close>, which takes the norm of \<open>u - v\<close> and so broadcasts as the
  subtraction does, and \<open>np.where(z == np.min(z))[0][0]\<close>, the first index of the minimum of
  \<open>z\<close>, which raises ValueError for an empty \<open>z\<close>.
\<close>

definition cdist_euclidean :: "mat \<Rightarrow> mat \<Rightarrow> mat result" where
  "cdist_euclidean a b =
     (if ncols a = ncols b
      then Inr (Mat (nrows b) (map (\<lambda>u. map (\<lambda>v. euclidean u v) (rows b)) (rows a)))
      else Inl ValueError)"

definition distance_euclidean :: "vec \<Rightarrow> vec \<Rightarrow> real result" where
  "distance_euclidean u v = seq (np_binop (\<lambda>a b. a - b) u v) (\<lambda>u_v. Inr (norm2 u_v))"

definition first_min_index :: "real list \<Rightarrow> nat result" where
  "first_min_index z =
     (if z = [] then Inl ValueError else Inr (length (takeWhile (\<lambda>v. v \<noteq> Min (set z)) z)))"

text \<open>
  \<open>find_cell_proj_closest_vertex(Z, Y)\<close>: the columns of \<open>Z\<close> are the cells, the columns of
  \<open>Y\<close> the vertices of the tree. \<open>np.apply_along_axis\<close> raises ValueError when there is
  no cell.
\<close>

definition find_cell_proj_closest_vertex :: "mat \<Rightarrow> mat \<Rightarrow> nat list result" where
  "find_cell_proj_closest_vertex Z Y =
     seq (cdist_euclidean (mat_T Z) (mat_T Y)) (\<lambda>distances_Z_to_Y.
     if nrows distances_Z_to_Y = 0 then Inl ValueError
     else map_result first_min_index (rows distances_Z_to_Y))"

text \<open>
  \<open>proj_point_on_line(point, line)\<close>: the projection onto the whole line, not clamped. The
  division has no guard. When the two points of the line coincide, \<open>ab\<close> is the zero vector
  and the quotient is \<open>0 / 0\<close>, for which numpy gives NaN and no exception: the result is
  then an array in which every entry is NaN. Such an array is \<open>NaNs n\<close> here, with its
  length \<open>n\<close>; an array of reals is \<open>Fin v\<close>. (When \<open>ab\<close> is empty the result is the empty
  array.)
\<close>

datatype fvec = Fin vec | NaNs nat

definition proj_point_on_line :: "vec \<Rightarrow> mat \<Rightarrow> fvec result" where
  "proj_point_on_line point line =
     seq (column line 0) (\<lambda>l0.
     seq (np_binop (\<lambda>a b. a - b) point l0) (\<lambda>ap.
     seq (column line 1) (\<lambda>l1.
     seq (np_binop (\<lambda>a b. a - b) l1 l0) (\<lambda>ab.
     seq (np_dot ap ab) (\<lambda>n.
     seq (np_dot ab ab) (\<lambda>d.
     if d = 0 \<and> ab \<noteq> [] then Inr (NaNs (length ab))
     else seq (np_binop (\<lambda>a b. a + b) l0 (smul (n / d) ab)) (\<lambda>res. Inr (Fin res))))))))"

text \<open>
  One candidate of the loop over the neighbours in \<open>project2MST\<close>: the projection \<open>tmp\<close>
  with its distance from the cell \<open>Z_i\<close>. The distance from an array of NaNs is NaN (after
  the same broadcasting of \<open>Z_i - tmp\<close>), and the candidate is \<open>None\<close> then.
\<close>

definition candidate :: "vec \<Rightarrow> fvec \<Rightarrow> (vec \<times> real) option result" where
  "candidate Z_i tmp =
     (case tmp of
        Fin q \<Rightarrow> seq (distance_euclidean Z_i q) (\<lambda>d. Inr (Some (q, d)))
      | NaNs n \<Rightarrow>
          if length Z_i = n \<or> length Z_i = 1 \<or> n = 1 then Inr None else Inl ValueError)"

text \<open>
  \<open>projection[np.where(dist == np.min(dist))[0][0], :]\<close>: for an empty \<open>dist\<close> the minimum
  raises ValueError. When a distance is NaN the minimum is NaN, which is equal to no entry:
  the selection is empty and its first element raises IndexError.
\<close>

definition closest_candidate :: "(vec \<times> real) option list \<Rightarrow> vec result" where
  "closest_candidate cands =
     (if cands = [] then Inl ValueError
      else if None \<in> set cands then Inl IndexError
      else seq (first_min_index (map (\<lambda>c. snd (the c)) cands)) (\<lambda>k. Inr (fst (the (cands ! k)))))"

text \<open>
  scipy's \<open>minimum_spanning_tree\<close>: Kruskal's algorithm over the entries of the matrix that
  are not zero, by ascending weight; an entry is kept when its two ends lie in different
  components so far and is set to zero otherwise. Entries of equal weight are taken in the
  order of the rows here; scipy leaves their order to \<open>np.argsort\<close>. \<open>label ! v\<close> is the
  component of the vertex \<open>v\<close>.
\<close>

definition nonzero_entries :: "mat \<Rightarrow> (nat \<times> nat) list" where
  "nonzero_entries m =
     concat (map (\<lambda>i. concat (map (\<lambda>j. if rows m ! i ! j \<noteq> 0 then [(i, j)] else [])
                                  [0..<ncols m])) [0..<nrows m])"

fun kruskal :: "(nat \<times> nat) list \<Rightarrow> nat list \<Rightarrow> (nat \<times> nat) list" where
  "kruskal [] label = []"
| "kruskal ((i, j) # es) label =
     (if label ! i = label ! j then kruskal es label
      else (i, j) # kruskal es (map (\<lambda>c. if c = label ! j then label ! i else c) label))"

definition minimum_spanning_tree :: "mat \<Rightarrow> mat result" where
  "minimum_spanning_tree m =
     (if ncols m \<noteq> nrows m then Inl ValueError
      else
        (let kept = kruskal (sort_key (\<lambda>(i, j). rows m ! i ! j) (nonzero_entries m)) [0..<nrows m]
         in Inr (Mat (ncols m)
               (map (\<lambda>i. map (\<lambda>j. if (i, j) \<in> set kept then rows m ! i ! j else 0)
                             [0..<ncols m]) [0..<nrows m]))))"

text \<open>
  \<open>project2MST(mst, Z, Y, Projection_Method)\<close>. A \<open>Projection_Method\<close> that is not callable
  is \<open>None\<close> here; the code then reads \<open>Y.iloc\<close>, which an array does not have.
  \<open>Y[:, [a, b]]\<close> is the matrix of the two columns \<open>a\<close> and \<open>b\<close>; \<open>project_cell\<close> is
  the body of the loop over the cells, which returns the column \<open>P[:, i]\<close>.
\<close>

definition two_columns :: "mat \<Rightarrow> nat \<Rightarrow> nat \<Rightarrow> mat result" where
  "two_columns m a b =
     (if a < ncols m \<and> b < ncols m then Inr (Mat 2 (map (\<lambda>r. [r ! a, r ! b]) (rows m)))
      else Inl IndexError)"

definition squareform_pdist :: "vec list \<Rightarrow> mat" where
  "squareform_pdist pts = Mat (length pts) (map (\<lambda>u. map (\<lambda>v. euclidean u v) pts) pts)"

definition min_nonzero :: "mat \<Rightarrow> real result" where
  "min_nonzero m =
     (let nz = filter (\<lambda>v. v \<noteq> 0) (concat (rows m))
      in if nz = [] then Inl ValueError else Inr (Min (set nz)))"

definition add_floor :: "mat \<Rightarrow> real \<Rightarrow> mat" where
  "add_floor m c =
     Mat (ncols m) (map (\<lambda>i. map (\<lambda>j. if i = j then 0 else rows m ! i ! j + c) [0..<ncols m])
                     [0..<nrows m])"

definition project_cell ::
  "mat \<Rightarrow> nat list \<Rightarrow> (vec \<Rightarrow> mat \<Rightarrow> vec result) \<Rightarrow> mat \<Rightarrow> mat \<Rightarrow> nat list \<Rightarrow> nat \<Rightarrow> vec result" where
  "project_cell dp_mst tip_leaves pm Z Y closest_vertex i =
     (let cv = closest_vertex ! i in
      if \<not> cv < vcount dp_mst then Inl ValueError
      else
        seq (column Z i) (\<lambda>Z_i.
        seq (map_result (\<lambda>neighbor.
               seq (two_columns Y cv neighbor) (\<lambda>line.
               seq (if cv \<in> set tip_leaves then proj_point_on_line Z_i line
                    else seq (pm Z_i line) (\<lambda>q. Inr (Fin q))) (\<lambda>tmp.
               candidate Z_i tmp)))
             (neighbors dp_mst cv)) (\<lambda>projection.
        seq (closest_candidate projection) (\<lambda>q.
        assign_vec (nrows Z) q))))"

definition project2MST ::
  "mat \<Rightarrow> mat \<Rightarrow> mat \<Rightarrow> (vec \<Rightarrow> mat \<Rightarrow> vec result) option \<Rightarrow> (mat \<times> mat \<times> nat list \<times> mat) result" where
  "project2MST mst Z Y Projection_Method =
     seq (find_cell_proj_closest_vertex Z Y) (\<lambda>closest_vertex.
     seq (Weighted_Adjacency mst) (\<lambda>dp_mst.
     let tip_leaves = filter (\<lambda>v. degree dp_mst v = 1) [0..<vcount dp_mst] in
     case Projection_Method of
       None \<Rightarrow> Inl AttributeError
     | Some pm \<Rightarrow>
         seq (map_result (project_cell dp_mst tip_leaves pm Z Y closest_vertex)
                [0..<length closest_vertex]) (\<lambda>P_columns.
         let P = mat_T (Mat (nrows Z) P_columns);
             dp = squareform_pdist P_columns in
         seq (min_nonzero dp) (\<lambda>min_dist.
         let dp = add_floor dp min_dist in
         seq (minimum_spanning_tree dp) (\<lambda>dp_mst.
         Inr (dp, P, closest_vertex, dp_mst))))))"

text \<open>
  The data container: the number of cells, the two columns of \<open>adata.obs\<close> and the entries
  of \<open>adata.uns["cell_order"]\<close> that \<open>order_cells\<close> writes. A column that is assigned must
  have one value for every cell.
\<close>

record adata =
  n_obs :: nat
  obs_Pseudotime :: "real list option"
  obs_cell_pseudo_state :: "nat list option"
  uns_root_cell :: "nat option"
  uns_minSpanningTree :: "mat option"
  uns_pr_graph_cell_proj_closest_vertex :: "nat list option"
  uns_branch_points :: "nat list option"

definition obs_column :: "adata \<Rightarrow> 'a list \<Rightarrow> 'a list result" where
  "obs_column ad vs = (if length vs = n_obs ad then Inr vs else Inl ValueError)"

text \<open>\<open>cc_ordering.loc[closest_vertex, "cell_pseudo_state"]\<close>: the rows are found by their label.\<close>

definition loc_state :: "ordering_row list \<Rightarrow> nat \<Rightarrow> nat result" where
  "loc_state tab v =
     (case filter (\<lambda>r. cell_index r = v) tab of [] \<Rightarrow> Inl KeyError | r # _ \<Rightarrow> Inr (cell_pseudo_state r))"

text \<open>
  \<open>order_cells\<close> from its line 283 on: the learner \<open>DDRTree\<close> has returned \<open>Z\<close> and \<open>Y\<close>,
  \<open>dp\<close> holds the distances between the columns of \<open>Y\<close>, \<open>mst\<close> is the spanning tree of
  the learner's tree and \<open>root_cell\<close> the root that \<open>select_root_cell\<close> chose.

  When no cell is mapped to the root, \<open>cells_mapped_to_graph_root\<close> becomes the integer
  \<open>root_cell\<close> itself. Without \<open>root_state\<close> the root is an entry of the diameter that
  igraph returns, a Python integer, and indexing it raises TypeError. With \<open>root_state\<close>
  the root is an entry of the numpy array \<open>pr_graph_cell_proj_closest_vertex\<close> of an
  earlier run, a numpy integer, which is indexed as a 0-D array: the selection by
  \<open>np.isin(root_cell, tip_leaves)\<close> holds the root when it is a tip and is empty otherwise.
  The first element of an empty selection raises IndexError. \<open>np.isnan\<close> of an integer is
  false, so the branch that selects the root again is not entered.
\<close>

definition order_cells_from_first_order ::
  "adata \<Rightarrow> mat \<Rightarrow> mat \<Rightarrow> mat \<Rightarrow> mat \<Rightarrow> nat \<Rightarrow> nat option \<Rightarrow> adata result" where
  "order_cells_from_first_order ad Z Y dp mst root_cell root_state =
     seq (get_order_from_DDRTree dp mst root_cell) (\<lambda>cc_ordering.
     seq (obs_column ad (map pseudo_time cc_ordering)) (\<lambda>pt.
     let ad = ad\<lparr>obs_Pseudotime := Some pt, uns_root_cell := Some root_cell\<rparr> in
     seq (Weighted_Adjacency mst) (\<lambda>old_mst_graph.
     seq (project2MST mst Z Y (Some project_point_to_line_segment))
       (\<lambda>(cellPairwiseDistances, pr_graph_cell_proj_dist, pr_graph_cell_proj_closest_vertex,
           pr_graph_cell_proj_tree).
     let ad = ad\<lparr>uns_minSpanningTree := Some pr_graph_cell_proj_tree,
                 uns_pr_graph_cell_proj_closest_vertex := Some pr_graph_cell_proj_closest_vertex\<rparr>;
         cells_mapped_to_graph_root =
           filter (\<lambda>i. pr_graph_cell_proj_closest_vertex ! i = root_cell)
             [0..<length pr_graph_cell_proj_closest_vertex];
         tip_leaves = filter (\<lambda>v. degree old_mst_graph v = 1) [0..<vcount old_mst_graph]
     in
     seq (if cells_mapped_to_graph_root = [] then
            (if root_state = None then Inl TypeError
             else if root_cell \<in> set tip_leaves then Inr root_cell
             else Inl IndexError)
          else
            (case filter (\<lambda>c. c \<in> set tip_leaves) cells_mapped_to_graph_root of
               [] \<Rightarrow> Inl IndexError
             | c # _ \<Rightarrow> Inr c)) (\<lambda>root_cell.
     let ad = ad\<lparr>uns_root_cell := Some root_cell\<rparr> in
     seq (get_order_from_DDRTree dp mst root_cell) (\<lambda>cc_ordering_new_pseudotime.
     seq (obs_column ad (map pseudo_time cc_ordering_new_pseudotime)) (\<lambda>pt.
     let ad = ad\<lparr>obs_Pseudotime := Some pt\<rparr> in
     seq (if root_state = None then
            seq (map_result (loc_state cc_ordering) pr_graph_cell_proj_closest_vertex) (\<lambda>st.
            seq (obs_column ad st) (\<lambda>st. Inr (ad\<lparr>obs_cell_pseudo_state := Some st\<rparr>)))
          else Inr ad) (\<lambda>ad.
     seq (Weighted_Adjacency pr_graph_cell_proj_tree) (\<lambda>pr_graph_cell_proj_tree_graph.
     Inr (ad\<lparr>uns_branch_points :=
               Some (filter (\<lambda>v. degree pr_graph_cell_proj_tree_graph v > 2)
                       [0..<vcount pr_graph_cell_proj_tree_graph])\<rparr>))))))))))"

section \<open>A run of the ordering on four cells\<close>

text \<open>
  Four vertices of the learner's tree lie on a line at 0, 1, 2 and 3 and are joined in this
  order; the root is the vertex 3. The cells lie at 0, 2, 1 and 3: the cells 1 and 2 stand
  in the other order than the vertices 1 and 2. \<open>ex_dp\<close> holds the distances between the
  vertices. \<open>ex_cpd\<close> and \<open>ex_tree\<close> are the distances between the projected cells and their
  spanning tree (the path 0, 2, 1, 3), and \<open>ex_final\<close> is the data container after the run.
\<close>

definition ex_Y :: mat where
  "ex_Y = Mat 4 [[0, 1, 2, 3]]"

definition ex_Z :: mat where
  "ex_Z = Mat 4 [[0, 2, 1, 3]]"

definition ex_dp :: mat where
  "ex_dp = Mat 4 [[0, 1, 2, 3], [1, 0, 1, 2], [2, 1, 0, 1], [3, 2, 1, 0]]"

definition ex_mst :: mat where
  "ex_mst = Mat 4 [[0, 1, 0, 0], [0, 0, 1, 0], [0, 0, 0, 1], [0, 0, 0, 0]]"

definition ex_adata :: adata where
  "ex_adata = \<lparr>n_obs = 4, obs_Pseudotime = None, obs_cell_pseudo_state = None,
     uns_root_cell = None, uns_minSpanningTree = None,
     uns_pr_graph_cell_proj_closest_vertex = None, uns_branch_points = None\<rparr>"

definition ex_cpd :: mat where
  "ex_cpd = Mat 4 [[0, 3, 2, 4], [3, 0, 2, 2], [2, 2, 0, 3], [4, 2, 3, 0]]"

definition ex_tree :: mat where
  "ex_tree = Mat 4 [[0, 0, 2, 0], [0, 0, 2, 2], [0, 0, 0, 0], [0, 0, 0, 0]]"

definition ex_final :: adata where
  "ex_final = \<lparr>n_obs = 4, obs_Pseudotime = Some [3, 2, 1, 0],
     obs_cell_pseudo_state = Some [0, 0, 0, 0], uns_root_cell = Some 3,
     uns_minSpanningTree = Some ex_tree,
     uns_pr_graph_cell_proj_closest_vertex = Some [0, 2, 1, 3], uns_branch_points = Some []\<rparr>"

section \<open>Evaluation on concrete arrays\<close>

text \<open>The equations that evaluate the array operations on explicit lists.\<close>

lemma replicate_numeral: "replicate (numeral k) x = x # replicate (pred_numeral k) x"
  by (simp add: numeral_eq_Suc)

lemma sqrt_9: "sqrt 9 = 3"
  by (simp add: real_sqrt_unique)

lemmas array_eval =
  seq_def nrows_def dotp_def sumsq_def vminus_def norm2_def outer_def fro_norm_def
  mat_dot_vec_def mat_row_def ten_slice2_def assign_vec_def assign_rows_def mat_at_def
  upt_rec[of _ "numeral _"] upt_rec[of _ "Suc _"] upt_rec[of _ 0] upt_rec[of _ 1]
  replicate_numeral

text \<open>Broadcasting of equal shapes, and loops that stop at the first exception.\<close>

lemma bidx_less: "i < n \<Longrightarrow> bidx n i = i"
  by (auto simp: bidx_def)

lemma bsize_same: "bsize a a = Some a"
  by (simp add: bsize_def)

lemma wf_mat_row: "wf_mat m \<Longrightarrow> r \<in> set (rows m) \<Longrightarrow> length r = ncols m"
  by (simp add: wf_mat_def list_all_iff)

lemma bsize_one: "bsize d 1 = Some d" "bsize d (Suc 0) = Some d"
  by (simp_all add: bsize_def)

lemma bidx_one: "bidx 1 i = 0" "bidx (Suc 0) i = 0"
  by (simp_all add: bidx_def)

lemma dotp_map: "dotp (map f xs) (map g xs) = sum_list (map (\<lambda>x. f x * g x) xs)"
  by (induction xs) (simp_all add: dotp_def)

lemma map_result_Inr: "map_result (\<lambda>x. Inr (f x)) xs = Inr (map f xs)"
  by (induction xs) (simp_all add: seq_def)

lemma map_result_cong:
  "(\<And>x. x \<in> set xs \<Longrightarrow> f x = g x) \<Longrightarrow> map_result f xs = map_result g xs"
  by (induction xs) (auto simp: seq_def split: sum.splits)

lemma map_nth_gen: "map (\<lambda>i. f (xs ! i)) [0..<length xs] = map f xs"
  by (rule nth_equalityI) auto

lemma sum_list_cong: "(\<And>x. x \<in> set xs \<Longrightarrow> f x = g x) \<Longrightarrow> sum_list (map f xs) = sum_list (map g xs)"
  by (induction xs) auto

lemma map_result_append:
  "map_result f (xs @ ys) =
     seq (map_result f xs) (\<lambda>a. seq (map_result f ys) (\<lambda>b. Inr (a @ b)))"
  by (induction xs) (auto simp: seq_def split: sum.splits)

lemma map_result_concat:
  "map_result f (concat xss) = seq (map_result (map_result f) xss) (\<lambda>yss. Inr (concat yss))"
  by (induction xss) (auto simp: map_result_append seq_def split: sum.splits)

lemma map_result_then:
  "map_result (\<lambda>x. seq (f x) (\<lambda>y. Inr (g y))) xs = seq (map_result f xs) (\<lambda>ys. Inr (map g ys))"
  by (induction xs) (auto simp: seq_def split: sum.splits)

lemma map_result_map: "map_result f (map g xs) = map_result (\<lambda>x. f (g x)) xs"
  by (induction xs) (auto simp: seq_def split: sum.splits)

lemma map_result_length: "map_result f xs = Inr ys \<Longrightarrow> length ys = length xs"
  by (induction xs arbitrary: ys) (auto simp: seq_def split: sum.splits)

lemma upt_split: "i \<le> j \<Longrightarrow> j \<le> m \<Longrightarrow> [i..<j] @ [j..<m] = [i..<m]"
  using upt_add_eq_append[of i j "m - j"] by simp

section \<open>The ordering table\<close>

lemmas graph_eval =
  Weighted_Adjacency_def vcount_def neighbors_def degree_def dfs_def list_get_def list_set_def

text \<open>
  The part of the ordering that holds on every input: along the visit the state counter
  never goes down, and every row carries the value the counter had when it was written.
\<close>

lemma order_loop_counter:
  assumes "order_loop dp g xs (s, pts, tab) = Inr (s', pts', tab')"
    and "sorted (map cell_pseudo_state tab)"
    and "\<forall>r \<in> set tab. cell_pseudo_state r \<le> s"
  shows "sorted (map cell_pseudo_state tab') \<and> (\<forall>r \<in> set tab'. cell_pseudo_state r \<le> s') \<and> s \<le> s'"
  using assms
proof (induction xs arbitrary: s pts tab)
  case Nil
  then show ?case by simp
next
  case (Cons x xs)
  obtain curr_node pre where x: "x = (curr_node, pre)" by (cases x)
  from Cons.prems(1) obtain s1 pts1 pn pt where
    s1: "s1 = s \<or> s1 = s + 1"
    and rest: "order_loop dp g xs (s1, pts1,
        tab @ [\<lparr>cell_index = curr_node, cell_pseudo_state = s1, pseudo_time = pt, parent = pn\<rparr>])
      = Inr (s', pts', tab')"
    unfolding x
    by (auto simp: seq_def list_set_def split: sum.splits if_splits prod.splits)
  have srt: "sorted (map cell_pseudo_state
      (tab @ [\<lparr>cell_index = curr_node, cell_pseudo_state = s1, pseudo_time = pt, parent = pn\<rparr>]))"
    using Cons.prems(2,3) s1 by (auto simp: sorted_append)
  have bnd: "\<forall>r \<in> set (tab @ [\<lparr>cell_index = curr_node, cell_pseudo_state = s1, pseudo_time = pt, parent = pn\<rparr>]).
      cell_pseudo_state r \<le> s1"
    using Cons.prems(3) s1 by auto
  from Cons.IH[OF rest srt bnd] s1 show ?case by auto
qed

text \<open>
  C1. Every vertex other than the root is to get the pseudotime of its parent in the
  depth-first tree plus \<open>dp[child, parent]\<close>, and the state counter is to go up at every
  vertex whose parent has a degree above 2. The code takes a vertex for the root when
  \<open>pres[i] > 0\<close> fails, that is whenever its parent is the vertex 0.

  The tree below is a star: the vertex 0 in the middle, at the distances 3, 3 and 4 from the
  leaves 1, 2 and 3, and the root is the leaf 1. The visit is 1, 0, 3, 2 with the parents
  -1, 1, 0, 0. The vertices 3 and 2 hang below the vertex 0, whose pseudotime is 3 and whose
  degree is 3: their pseudotimes should be \<open>3 + 4 = 7\<close> and \<open>3 + 3 = 6\<close> and their states 1
  and 2. The table gives both the pseudotime 0, the state 0 and no parent.

  The second tree is the single edge between 0 and 1 of length 1, with the root 0: the vertex
  1 gets the pseudotime 0 and not 1.
\<close>

theorem get_order_from_DDRTree_children_of_vertex_0:
  "dfs (Mat 4 [[0, 3, 3, 4], [0, 0, 0, 0], [0, 0, 0, 0], [0, 0, 0, 0]]) 1
     = Inr ([1, 0, 3, 2], [- 1, 1, 0, 0]) \<and>
   degree (Mat 4 [[0, 3, 3, 4], [0, 0, 0, 0], [0, 0, 0, 0], [0, 0, 0, 0]]) 0 = 3 \<and>
   get_order_from_DDRTree
       (Mat 4 [[0, 3, 3, 4], [3, 0, 6, 5], [3, 6, 0, 5], [4, 5, 5, 0]])
       (Mat 4 [[0, 3, 3, 4], [0, 0, 0, 0], [0, 0, 0, 0], [0, 0, 0, 0]]) 1
     = Inr [\<lparr>cell_index = 0, cell_pseudo_state = 0, pseudo_time = 3, parent = 1\<rparr>,
            \<lparr>cell_index = 1, cell_pseudo_state = 0, pseudo_time = 0, parent = - 1\<rparr>,
            \<lparr>cell_index = 2, cell_pseudo_state = 0, pseudo_time = 0, parent = - 1\<rparr>,
            \<lparr>cell_index = 3, cell_pseudo_state = 0, pseudo_time = 0, parent = - 1\<rparr>] \<and>
   get_order_from_DDRTree (Mat 2 [[0, 1], [1, 0]]) (Mat 2 [[0, 1], [0, 0]]) 0
     = Inr [\<lparr>cell_index = 0, cell_pseudo_state = 0, pseudo_time = 0, parent = - 1\<rparr>,
            \<lparr>cell_index = 1, cell_pseudo_state = 0, pseudo_time = 0, parent = - 1\<rparr>]"
  by (simp add: get_order_from_DDRTree_def graph_eval array_eval)

section \<open>The final ordering of order\_cells\<close>

lemmas proj_eval =
  find_cell_proj_closest_vertex_def cdist_euclidean_def distance_euclidean_def
  first_min_index_def proj_point_on_line_def nonzero_entries_def minimum_spanning_tree_def
  two_columns_def squareform_pdist_def min_nonzero_def add_floor_def project_cell_def
  candidate_def closest_candidate_def
  project2MST_def euclidean_def mat_T_def column_def np_binop_def np_dot_def smul_def
  project_point_to_line_segment_def sqrt_9

lemma ex_project2MST:
  "project2MST ex_mst ex_Z ex_Y (Some project_point_to_line_segment)
     = Inr (ex_cpd, ex_Z, [0, 2, 1, 3], ex_tree)"
  by (simp add: ex_Z_def ex_Y_def ex_mst_def ex_cpd_def ex_tree_def proj_eval graph_eval array_eval)

text \<open>
  Two vertices of the tree at the same place: the projection of a cell onto the line through
  them divides 0 by 0. \<open>proj_point_on_line\<close> returns the array of NaNs, the distance of the
  cell from it is NaN, and the selection of the closest candidate in \<open>project2MST\<close> raises
  IndexError.
\<close>

lemma proj_point_on_line_coincident:
  "proj_point_on_line [1] (Mat 2 [[0, 0]]) = Inr (NaNs 1) \<and>
   project2MST (Mat 2 [[0, 1], [0, 0]]) (Mat 1 [[1]]) (Mat 2 [[0, 0]])
       (Some project_point_to_line_segment) = Inl IndexError"
  by (simp add: proj_eval graph_eval array_eval)

lemma ex_first_order:
  "get_order_from_DDRTree ex_dp ex_mst 3
     = Inr [\<lparr>cell_index = 0, cell_pseudo_state = 0, pseudo_time = 3, parent = 1\<rparr>,
            \<lparr>cell_index = 1, cell_pseudo_state = 0, pseudo_time = 2, parent = 2\<rparr>,
            \<lparr>cell_index = 2, cell_pseudo_state = 0, pseudo_time = 1, parent = 3\<rparr>,
            \<lparr>cell_index = 3, cell_pseudo_state = 0, pseudo_time = 0, parent = - 1\<rparr>]"
  by (simp add: get_order_from_DDRTree_def ex_dp_def ex_mst_def graph_eval array_eval)

lemma Suc_3: "Suc (Suc (Suc 0)) = 3"
  by simp

lemma ex_run:
  "order_cells_from_first_order ex_adata ex_Z ex_Y ex_dp ex_mst 3 None = Inr ex_final"
  unfolding order_cells_from_first_order_def ex_project2MST ex_first_order
  by (simp add: ex_adata_def ex_final_def ex_mst_def ex_tree_def ex_first_order[unfolded ex_mst_def] Suc_3
        obs_column_def loc_state_def graph_eval array_eval)

text \<open>
  What every run of \<open>order_cells\<close> that returns has written. The tree of the projected
  cells is stored and its branch points are recorded, but the pseudotime is the column of
  the ordering over the tree \<open>mst\<close> and the distances \<open>dp\<close> of the first ordering, run again
  from the root that was recorded last.
\<close>

lemma order_cells_reuses_first_tree:
  assumes "order_cells_from_first_order ad Z Y dp mst root_cell root_state = Inr ad'"
  shows "\<exists>cpd P cv tree root' ord.
      project2MST mst Z Y (Some project_point_to_line_segment) = Inr (cpd, P, cv, tree)
    \<and> uns_root_cell ad' = Some root'
    \<and> uns_minSpanningTree ad' = Some tree
    \<and> get_order_from_DDRTree dp mst root' = Inr ord
    \<and> obs_Pseudotime ad' = Some (map pseudo_time ord)
    \<and> uns_branch_points ad' = Some (filter (\<lambda>v. degree tree v > 2) [0..<vcount tree])"
  using assms
  apply (simp add: order_cells_from_first_order_def seq_def Let_def obs_column_def
      Weighted_Adjacency_def split: sum.splits prod.splits list.splits if_splits)
  apply (auto simp: conj_commute)
  done

text \<open>
  C2. After \<open>project2MST\<close> has produced the distances between the projected cells and their
  spanning tree, the final ordering is to be the depth-first ordering from the refined root
  over this refined tree. The code runs \<open>get_order_from_DDRTree(dp=dp, mst=mst, ...)\<close> with
  the distances and the tree of the first ordering once more: \<open>cellPairwiseDistances\<close> is
  never read and the refined tree is only stored.

  On the run of the four cells the root is the vertex 3 before and after the projection, the
  refined tree is the path 0, 2, 1, 3 and no vertex of it has a degree above 2. The
  pseudotime written back is 3, 2, 1, 0, the pseudotime of the first ordering: the distances
  from the vertex 3 along the learner's tree. The ordering from the refined root 3 over the
  refined tree gives 6, 2, 4, 0 with the distances between the projected cells, and
  5, 2, 3, 0 with the distances \<open>dp\<close>: the cell 1, which lies next to the root, comes before
  the cell 2, where the code has them the other way round.
\<close>

theorem order_cells_ignores_refined_tree:
  "order_cells_from_first_order ex_adata ex_Z ex_Y ex_dp ex_mst 3 None = Inr ex_final \<and>
   obs_Pseudotime ex_final = Some [3, 2, 1, 0] \<and>
   uns_root_cell ex_final = Some 3 \<and>
   uns_minSpanningTree ex_final = Some ex_tree \<and>
   uns_branch_points ex_final = Some [] \<and>
   project2MST ex_mst ex_Z ex_Y (Some project_point_to_line_segment)
     = Inr (ex_cpd, ex_Z, [0, 2, 1, 3], ex_tree) \<and>
   get_order_from_DDRTree ex_dp ex_mst 3
     = Inr [\<lparr>cell_index = 0, cell_pseudo_state = 0, pseudo_time = 3, parent = 1\<rparr>,
            \<lparr>cell_index = 1, cell_pseudo_state = 0, pseudo_time = 2, parent = 2\<rparr>,
            \<lparr>cell_index = 2, cell_pseudo_state = 0, pseudo_time = 1, parent = 3\<rparr>,
            \<lparr>cell_index = 3, cell_pseudo_state = 0, pseudo_time = 0, parent = - 1\<rparr>] \<and>
   get_order_from_DDRTree ex_cpd ex_tree 3
     = Inr [\<lparr>cell_index = 0, cell_pseudo_state = 0, pseudo_time = 6, parent = 2\<rparr>,
            \<lparr>cell_index = 1, cell_pseudo_state = 0, pseudo_time = 2, parent = 3\<rparr>,
            \<lparr>cell_index = 2, cell_pseudo_state = 0, pseudo_time = 4, parent = 1\<rparr>,
            \<lparr>cell_index = 3, cell_pseudo_state = 0, pseudo_time = 0, parent = - 1\<rparr>] \<and>
   get_order_from_DDRTree ex_dp ex_tree 3
     = Inr [\<lparr>cell_index = 0, cell_pseudo_state = 0, pseudo_time = 5, parent = 2\<rparr>,
            \<lparr>cell_index = 1, cell_pseudo_state = 0, pseudo_time = 2, parent = 3\<rparr>,
            \<lparr>cell_index = 2, cell_pseudo_state = 0, pseudo_time = 3, parent = 1\<rparr>,
            \<lparr>cell_index = 3, cell_pseudo_state = 0, pseudo_time = 0, parent = - 1\<rparr>]"
proof -
  have a: "get_order_from_DDRTree ex_cpd ex_tree 3
     = Inr [\<lparr>cell_index = 0, cell_pseudo_state = 0, pseudo_time = 6, parent = 2\<rparr>,
            \<lparr>cell_index = 1, cell_pseudo_state = 0, pseudo_time = 2, parent = 3\<rparr>,
            \<lparr>cell_index = 2, cell_pseudo_state = 0, pseudo_time = 4, parent = 1\<rparr>,
            \<lparr>cell_index = 3, cell_pseudo_state = 0, pseudo_time = 0, parent = - 1\<rparr>]"
    by (simp add: get_order_from_DDRTree_def ex_cpd_def ex_tree_def graph_eval array_eval)
  have b: "get_order_from_DDRTree ex_dp ex_tree 3
     = Inr [\<lparr>cell_index = 0, cell_pseudo_state = 0, pseudo_time = 5, parent = 2\<rparr>,
            \<lparr>cell_index = 1, cell_pseudo_state = 0, pseudo_time = 2, parent = 3\<rparr>,
            \<lparr>cell_index = 2, cell_pseudo_state = 0, pseudo_time = 3, parent = 1\<rparr>,
            \<lparr>cell_index = 3, cell_pseudo_state = 0, pseudo_time = 0, parent = - 1\<rparr>]"
    by (simp add: get_order_from_DDRTree_def ex_dp_def ex_tree_def graph_eval array_eval)
  have c: "obs_Pseudotime ex_final = Some [3, 2, 1, 0]" "uns_root_cell ex_final = Some 3"
    "uns_minSpanningTree ex_final = Some ex_tree" "uns_branch_points ex_final = Some []"
    by (simp_all add: ex_final_def)
  show ?thesis using ex_run ex_project2MST ex_first_order a b c by simp
qed

section \<open>The Gaussian kernel and the analytical Jacobian\<close>

lemmas kernel_eval =
  con_K_def pairwise_diff_def cdist_sqeuclidean_def bsize_def bidx_def sum_sq_axis1_def
  squeeze2_def lookup_def

text \<open>The sum of squares of a difference, by index.\<close>

lemma vminus_nth: "length u = d \<Longrightarrow> length v = d \<Longrightarrow> vminus u v = map (\<lambda>k. u ! k - v ! k) [0..<d]"
  by (rule nth_equalityI) (auto simp: vminus_def)

lemma sumsq_vminus_nth:
  "length u = d \<Longrightarrow> length v = d \<Longrightarrow>
     sumsq (vminus u v) = sum_list (map (\<lambda>k. (u ! k - v ! k) ^ 2) [0..<d])"
  by (simp add: vminus_nth[of u d v] sumsq_def comp_def)

lemma pairwise_diff_same:
  assumes "ncols x = d" "ncols y = d"
  shows "pairwise_diff x y =
     Inr (Ten d (nrows y) (map (\<lambda>xi. map (\<lambda>k. map (\<lambda>yj. xi ! k - yj ! k) (rows y)) [0..<d]) (rows x)))"
  using assms by (simp add: pairwise_diff_def bsize_same bidx_less cong: map_cong)

lemma sum_sq_axis1_diff:
  assumes wx: "wf_mat x" and wy: "wf_mat y" and dx: "ncols x = d" and dy: "ncols y = d"
  shows "sum_sq_axis1 (Ten d (nrows y)
            (map (\<lambda>xi. map (\<lambda>k. map (\<lambda>yj. xi ! k - yj ! k) (rows y)) [0..<d]) (rows x)))
       = Mat (nrows y) (map (\<lambda>xi. map (\<lambda>yj. sumsq (vminus xi yj)) (rows y)) (rows x))"
proof -
  have row: "map (\<lambda>j. sum_list (map (\<lambda>k. (map (\<lambda>yj. xi ! k - yj ! k) (rows y) ! j) ^ 2) [0..<d])) [0..<nrows y]
           = map (\<lambda>yj. sumsq (vminus xi yj)) (rows y)" if xi: "xi \<in> set (rows x)" for xi
  proof -
    have lx: "length xi = d" using wf_mat_row[OF wx xi] dx by simp
    have "map (\<lambda>j. sum_list (map (\<lambda>k. (map (\<lambda>yj. xi ! k - yj ! k) (rows y) ! j) ^ 2) [0..<d])) [0..<nrows y]
        = map (\<lambda>j. sumsq (vminus xi (rows y ! j))) [0..<length (rows y)]"
    proof (rule map_cong)
      show "[0..<nrows y] = [0..<length (rows y)]" by (simp add: nrows_def)
    next
      fix j assume "j \<in> set [0..<length (rows y)]"
      then have j: "j < length (rows y)" by simp
      then have ly: "length (rows y ! j) = d" using wf_mat_row[OF wy, of "rows y ! j"] dy by simp
      show "sum_list (map (\<lambda>k. (map (\<lambda>yj. xi ! k - yj ! k) (rows y) ! j) ^ 2) [0..<d])
          = sumsq (vminus xi (rows y ! j))"
        using j by (simp add: sumsq_vminus_nth[OF lx ly] comp_def)
    qed
    also have "\<dots> = map (\<lambda>yj. sumsq (vminus xi yj)) (rows y)"
      by (rule nth_equalityI) auto
    finally show ?thesis .
  qed
  have "map (\<lambda>slab. map (\<lambda>j. sum_list (map (\<lambda>row. (row ! j) ^ 2) slab)) [0..<nrows y])
          (map (\<lambda>xi. map (\<lambda>k. map (\<lambda>yj. xi ! k - yj ! k) (rows y)) [0..<d]) (rows x))
      = map (\<lambda>xi. map (\<lambda>yj. sumsq (vminus xi yj)) (rows y)) (rows x)"
    unfolding map_map comp_def by (rule map_cong[OF refl]) (rule row)
  then show ?thesis by (simp only: sum_sq_axis1_def ten.sel)
qed

lemma amap_squeeze2:
  assumes "wf_mat (Mat c rs)"
  shows "amap f (squeeze2 (Mat c rs)) = squeeze2 (Mat c (map (map f) rs))"
proof -
  have l: "\<And>r. r \<in> set rs \<Longrightarrow> length r = c" using assms by (simp add: wf_mat_def list_all_iff)
  show ?thesis
  proof (cases "length rs = 1")
    case True
    then obtain r where rs: "rs = [r]" by (cases rs) auto
    with l have "length r = c" by simp
    then show ?thesis using rs by (cases r) (auto simp: squeeze2_def nrows_def)
  next
    case False
    then show ?thesis using l by (auto simp: squeeze2_def nrows_def comp_def)
  qed
qed

lemma gauss_rows_wf: "wf_mat (Mat (nrows y) (map (\<lambda>xi. map (\<lambda>yj. g xi yj) (rows y)) (rows x)))"
  by (simp add: wf_mat_def list_all_iff nrows_def)

text \<open>
  The values of the kernel on both paths, for \<open>x\<close> and \<open>y\<close> with \<open>d\<close> columns each: the
  \<open>cdist\<close> path returns the matrix of the Gaussian values, as a 1-D array when \<open>x\<close> has one
  row; the other path returns that matrix squeezed, and the tensor of the differences
  \<open>D[i, k, j] = x[i, k] - y[j, k]\<close> with it when \<open>return_d\<close> is set.
\<close>

theorem con_K_gauss:
  assumes wx: "wf_mat x" and wy: "wf_mat y" and dx: "ncols x = d" and dy: "ncols y = d"
  shows "con_K x y beta ''cdist'' False
           = Inr (OnlyK (if nrows x = 1 then A1 (map (gauss beta (rows x ! 0)) (rows y))
                         else A2 (gauss_matrix beta x y)))"
    and "meth \<noteq> ''cdist'' \<or> return_d \<Longrightarrow>
         con_K x y beta meth return_d
           = Inr ((if return_d then (\<lambda>K. WithD K (Ten d (nrows y)
                     (map (\<lambda>xi. map (\<lambda>k. map (\<lambda>yj. xi ! k - yj ! k) (rows y)) [0..<d]) (rows x))))
                   else OnlyK) (squeeze2 (gauss_matrix beta x y)))"
proof -
  show "con_K x y beta ''cdist'' False
           = Inr (OnlyK (if nrows x = 1 then A1 (map (gauss beta (rows x ! 0)) (rows y))
                         else A2 (gauss_matrix beta x y)))"
  proof (cases "nrows x = 1")
    case True
    then obtain r where "rows x = [r]" by (cases "rows x") (auto simp: nrows_def)
    then show ?thesis using dx dy
      by (simp add: con_K_def cdist_sqeuclidean_def seq_def nrows_def gauss_def comp_def)
  next
    case False
    then show ?thesis using dx dy
      by (simp add: con_K_def cdist_sqeuclidean_def seq_def nrows_def gauss_matrix_def gauss_def comp_def)
  qed
next
  assume m: "meth \<noteq> ''cdist'' \<or> return_d"
  have sq: "amap exp (amap (\<lambda>k. - beta * k)
               (squeeze2 (Mat (nrows y) (map (\<lambda>xi. map (\<lambda>yj. sumsq (vminus xi yj)) (rows y)) (rows x)))))
          = squeeze2 (gauss_matrix beta x y)"
    using gauss_rows_wf[of y "\<lambda>xi yj. sumsq (vminus xi yj)" x]
          gauss_rows_wf[of y "\<lambda>xi yj. - beta * sumsq (vminus xi yj)" x]
    by (simp add: amap_squeeze2 comp_def gauss_matrix_def gauss_def)
  show "con_K x y beta meth return_d
           = Inr ((if return_d then (\<lambda>K. WithD K (Ten d (nrows y)
                     (map (\<lambda>xi. map (\<lambda>k. map (\<lambda>yj. xi ! k - yj ! k) (rows y)) [0..<d]) (rows x))))
                   else OnlyK) (squeeze2 (gauss_matrix beta x y)))"
    using m
    by (auto simp: con_K_def pairwise_diff_same[OF dx dy] seq_def Let_def
          sum_sq_axis1_diff[OF wx wy dx dy] sq[unfolded mult_minus_left])
qed

text \<open>
  C3. For one row in \<open>x\<close> the kernel is to come back as a 1-D array, and otherwise as the
  matrix of the values \<open>exp(-beta |x_i - y_j|\<^sup>2)\<close>, on both paths. The \<open>cdist\<close> path does
  so. The path that builds \<open>D\<close> squeezes the kernel, which also drops the axis of the control
  points when \<open>y\<close> has one row: for one point and one control point \<open>K\<close> is a 0-D array, and
  for two points and one control point it is a 1-D array of length 2 where the \<open>cdist\<close> path
  returns the matrix of shape \<open>(2, 1)\<close>.
\<close>

theorem con_K_single_control_point:
  "con_K (Mat 1 [[1]]) (Mat 1 [[0]]) 1 ''cdist'' False = Inr (OnlyK (A1 [exp (- 1)])) \<and>
   con_K (Mat 1 [[1]]) (Mat 1 [[0]]) 1 ''cdist'' True
     = Inr (WithD (A0 (exp (- 1))) (Ten 1 1 [[[1]]])) \<and>
   con_K (Mat 1 [[1], [2]]) (Mat 1 [[0]]) 1 ''cdist'' False
     = Inr (OnlyK (A2 (Mat 1 [[exp (- 1)], [exp (- 4)]]))) \<and>
   con_K (Mat 1 [[1], [2]]) (Mat 1 [[0]]) 1 ''cdist'' True
     = Inr (WithD (A1 [exp (- 1), exp (- 4)]) (Ten 1 1 [[[1]], [[2]]]))"
  by (simp add: kernel_eval array_eval)

text \<open>
  The Jacobian at one point, entry by entry: \<open>kernel_sum\<close> is the entry \<open>(i, j)\<close> of
  \<open>(C\<^sup>T * K) D\<^sup>T\<close>.
\<close>

lemma squeeze2_row:
  "m \<noteq> 1 \<Longrightarrow> length r = m \<Longrightarrow> squeeze2 (Mat m [r]) = A1 r"
  by (simp add: squeeze2_def nrows_def)

lemma mat_binop_row:
  assumes "nrows a = r" "nrows b = 1" "ncols a = c" "ncols b = c"
  shows "mat_binop f a b
       = Inr (Mat c (map (\<lambda>i. map (\<lambda>j. f (rows a ! i ! j) (rows b ! 0 ! j)) [0..<c]) [0..<r]))"
  unfolding mat_binop_def assms
  by (simp add: bsize_one bsize_same bidx_less bidx_one cong: map_cong)

lemma mat_times_row:
  assumes m: "nrows Cm = m" and d: "ncols Cm = d" and kv: "length kv = m"
  shows "mat_times (mat_T Cm) (A1 kv)
       = Inr (Mat m (map (\<lambda>i. map (\<lambda>q. rows Cm ! q ! i * kv ! q) [0..<m]) [0..<d]))"
proof -
  have n1: "nrows (mat_T Cm) = d" "ncols (mat_T Cm) = m" "nrows (Mat m [kv]) = 1" "ncols (Mat m [kv]) = m"
    using m d by (simp_all add: mat_T_def nrows_def)
  have "mat_times (mat_T Cm) (A1 kv) = mat_binop (\<lambda>a b. a * b) (mat_T Cm) (Mat m [kv])"
    using kv by (simp add: mat_times_def)
  also have "\<dots> = Inr (Mat m (map (\<lambda>i. map (\<lambda>q. rows (mat_T Cm) ! i ! q * (rows (Mat m [kv]) ! 0 ! q)) [0..<m]) [0..<d]))"
    by (rule mat_binop_row[OF n1(1) n1(3) n1(2) n1(4)])
  also have "\<dots> = Inr (Mat m (map (\<lambda>i. map (\<lambda>q. rows Cm ! q ! i * kv ! q) [0..<m]) [0..<d]))"
    using m d by (simp add: mat_T_def nrows_def cong: map_cong)
  finally show ?thesis .
qed


lemma matmul_T_maps:
  "matmul (Mat m (map (\<lambda>i. map (F i) [0..<m]) [0..<r]))
          (mat_T (Mat m (map (\<lambda>k. map (G k) [0..<m]) [0..<c])))
     = Inr (Mat c (map (\<lambda>i. map (\<lambda>j. sum_list (map (\<lambda>q. F i q * G j q) [0..<m])) [0..<c]) [0..<r]))"
proof -
  let ?D = "Mat m (map (\<lambda>k. map (G k) [0..<m]) [0..<c])"
  have T: "mat_T ?D = Mat c (map (\<lambda>q. map (\<lambda>k. G k q) [0..<c]) [0..<m])"
    by (simp add: mat_T_def nrows_def comp_def cong: map_cong)
  have col: "map (\<lambda>s. s ! j) (map (\<lambda>q. map (\<lambda>k. G k q) [0..<c]) [0..<m]) = map (G j) [0..<m]"
    if "j < c" for j using that by (simp add: comp_def)
  have "matmul (Mat m (map (\<lambda>i. map (F i) [0..<m]) [0..<r])) (mat_T ?D)
      = Inr (Mat c (map (\<lambda>i. map (\<lambda>j. dotp (map (F i) [0..<m])
               (map (\<lambda>s. s ! j) (map (\<lambda>q. map (\<lambda>k. G k q) [0..<c]) [0..<m]))) [0..<c]) [0..<r]))"
    unfolding T by (simp add: matmul_def nrows_def comp_def)
  also have "\<dots> = Inr (Mat c (map (\<lambda>i. map (\<lambda>j. dotp (map (F i) [0..<m]) (map (G j) [0..<m])) [0..<c]) [0..<r]))"
    by (simp add: col cong: map_cong)
  finally show ?thesis by (simp add: dotp_map)
qed

lemma jac_point_closed:
  assumes kx: "vf_X_ctrl vf = Some Xc" and kb: "vf_beta vf = Some b" and kc: "vf_C vf = Some Cm"
    and wX: "wf_mat Xc" and dX: "ncols Xc = d" and mX: "nrows Xc = m"
    and mC: "nrows Cm = m" and dC: "ncols Cm = d" and lx: "length xi = d" and m1: "m \<noteq> 1"
  shows "jac_point vf xi
       = Inr (Mat d (map (\<lambda>i. map (\<lambda>j. kernel_sum b Xc Cm xi i j) [0..<d]) [0..<d]))"
proof -
  let ?kv = "map (gauss b xi) (rows Xc)"
  let ?D = "Ten d m [map (\<lambda>k. map (\<lambda>yj. xi ! k - yj ! k) (rows Xc)) [0..<d]]"
  have wx: "wf_mat (Mat d [xi])" using lx by (simp add: wf_mat_def)
  have ck: "con_K (Mat (length xi) [xi]) Xc b ''cdist'' True = Inr (WithD (A1 ?kv) ?D)"
    using con_K_gauss(2)[OF wx wX, where d = d and meth = "''cdist''" and return_d = True and beta = b]
      dX lx mX m1
    by (simp add: gauss_matrix_def squeeze2_row nrows_def)
  have CK: "mat_times (mat_T Cm) (A1 ?kv)
       = Inr (Mat m (map (\<lambda>i. map (\<lambda>q. rows Cm ! q ! i * gauss b xi (rows Xc ! q)) [0..<m]) [0..<d]))"
    using mat_times_row[OF mC dC, of ?kv] mX by (simp add: nrows_def cong: map_cong)
  have D0: "ten_index0 ?D 0
       = Inr (Mat m (map (\<lambda>k. map (\<lambda>q. xi ! k - rows Xc ! q ! k) [0..<m]) [0..<d]))"
  proof -
    have "map (\<lambda>yj. xi ! k - yj ! k) (rows Xc) = map (\<lambda>q. xi ! k - rows Xc ! q ! k) [0..<m]" for k
      using map_nth_gen[of "\<lambda>yj. xi ! k - yj ! k" "rows Xc"] mX by (simp add: nrows_def)
    then show ?thesis by (simp add: ten_index0_def)
  qed
  show ?thesis
    unfolding jac_point_def kx kb kc lookup_def
    by (simp add: seq_def ck CK D0 matmul_T_maps kernel_sum_def mX)
qed


lemma assign_mat_same:
  "assign_mat d d (Mat d (map (\<lambda>i. map (F i) [0..<d]) [0..<d]))
     = Inr (Mat d (map (\<lambda>i. map (F i) [0..<d]) [0..<d]))"
  by (simp add: assign_mat_def nrows_def bidx_less cong: map_cong)

lemma jacobian_loop:
  assumes kx: "vf_X_ctrl vf = Some Xc" and kb: "vf_beta vf = Some b" and kc: "vf_C vf = Some Cm"
    and wX: "wf_mat Xc" and dX: "ncols Xc = ncols x" and mC: "nrows Cm = nrows Xc"
    and dC: "ncols Cm = ncols x" and wx: "wf_mat x" and m1: "nrows Xc \<noteq> 1"
  shows "Jacobian_rkhs_gaussian (Points x) vf False = Inr (A3 (jac_closed_form b Xc Cm x))"
proof -
  let ?d = "ncols x"
  let ?MM = "\<lambda>xi. Mat ?d (map (\<lambda>i. map (\<lambda>j. kernel_sum b Xc Cm xi i j) [0..<?d]) [0..<?d])"
  have "map_result (\<lambda>xi. seq (jac_point vf xi) (assign_mat ?d ?d)) (rows x)
      = map_result (\<lambda>xi. Inr (?MM xi)) (rows x)"
  proof (rule map_result_cong)
    fix xi assume "xi \<in> set (rows x)"
    then have lx: "length xi = ?d" using wf_mat_row[OF wx] by simp
    show "seq (jac_point vf xi) (assign_mat ?d ?d) = Inr (?MM xi)"
      by (simp add: jac_point_closed[OF kx kb kc wX dX refl mC dC lx m1] seq_def assign_mat_same)
  qed
  then have loop: "map_result (\<lambda>xi. seq (jac_point vf xi) (assign_mat ?d ?d)) (rows x)
      = Inr (map ?MM (rows x))"
    by (simp add: map_result_Inr)
  have st: "tscale (- 2 * b) (stack_last ?d ?d (map ?MM (rows x))) = jac_closed_form b Xc Cm x"
    by (simp add: tscale_def stack_last_def jac_closed_form_def nrows_def comp_def cong: map_cong)
  have "Jacobian_rkhs_gaussian (Points x) vf False
      = seq (Inr (map ?MM (rows x)))
          (\<lambda>Js. seq (lookup (vf_beta vf)) (\<lambda>b. Inr (A3 (tscale (- 2 * b) (stack_last ?d ?d Js)))))"
    by (simp only: Jacobian_rkhs_gaussian_def points.case not_False_eq_True if_True Let_def loop)
  then show ?thesis using st by (simp add: seq_def kb lookup_def)
qed


lemma restore_point_axis:
  assumes wf: "wf_mat G" and m1: "ncols G \<noteq> 1"
  shows "(case squeeze2 G of A1 v \<Rightarrow> A2 (Mat (length v) [v]) | _ \<Rightarrow> squeeze2 G) = A2 G"
proof (cases "nrows G = 1")
  case True
  then obtain r where r: "rows G = [r]" by (cases "rows G") (auto simp: nrows_def)
  then have "length r = ncols G" using wf_mat_row[OF wf, of r] by simp
  moreover have "G = Mat (ncols G) [r]" using r by (cases G) simp
  ultimately show ?thesis using m1 r by (simp add: squeeze2_def nrows_def)
next
  case False
  then show ?thesis using m1 by (simp add: squeeze2_def)
qed

lemma einsum_closed:
  assumes mC: "nrows Cm = nrows Xc" and dC: "ncols Cm = ncols x"
  shows "einsum_nm_mi_njm (A2 (gauss_matrix b x Xc)) Cm
           (Ten (ncols x) (nrows Xc)
              (map (\<lambda>xi. map (\<lambda>k. map (\<lambda>yj. xi ! k - yj ! k) (rows Xc)) [0..<ncols x]) (rows x)))
       = Inr (Ten (ncols x) (nrows x)
           (map (\<lambda>i. map (\<lambda>j. map (\<lambda>xp. kernel_sum b Xc Cm xp i j) (rows x))
                          [0..<ncols x]) [0..<ncols x]))"
proof -
  let ?n = "nrows x" and ?m = "nrows Xc" and ?d = "ncols x"
  let ?G = "gauss_matrix b x Xc"
  let ?D = "map (\<lambda>xi. map (\<lambda>k. map (\<lambda>yj. xi ! k - yj ! k) (rows Xc)) [0..<?d]) (rows x)"
  have dims: "nrows ?G = ?n" "ncols ?G = ?m" "length ?D = ?n"
    by (simp_all add: gauss_matrix_def nrows_def)
  have entry: "rows ?G ! bidx ?n p ! bidx ?m q * (rows Cm ! bidx ?m q ! i)
                 * (?D ! bidx ?n p ! j ! bidx ?m q)
             = rows Cm ! q ! i * gauss b (rows x ! p) (rows Xc ! q) * (rows x ! p ! j - rows Xc ! q ! j)"
    if "p < ?n" "q < ?m" "j < ?d" for p q i j
    using that by (simp add: bidx_less gauss_matrix_def nrows_def)
  have inner: "map (\<lambda>p. sum_list (map (\<lambda>q. rows ?G ! bidx ?n p ! bidx ?m q * (rows Cm ! bidx ?m q ! i)
                 * (?D ! bidx ?n p ! j ! bidx ?m q)) [0..<?m])) [0..<?n]
             = map (\<lambda>xp. kernel_sum b Xc Cm xp i j) (rows x)" if j: "j < ?d" for i j
  proof -
    have "map (\<lambda>p. sum_list (map (\<lambda>q. rows ?G ! bidx ?n p ! bidx ?m q * (rows Cm ! bidx ?m q ! i)
                 * (?D ! bidx ?n p ! j ! bidx ?m q)) [0..<?m])) [0..<?n]
        = map (\<lambda>p. kernel_sum b Xc Cm (rows x ! p) i j) [0..<length (rows x)]"
      unfolding kernel_sum_def
      by (intro map_cong sum_list_cong) (simp_all add: nrows_def entry[unfolded nrows_def] j[unfolded nrows_def])
    also have "\<dots> = map (\<lambda>xp. kernel_sum b Xc Cm xp i j) (rows x)" by (rule map_nth_gen)
    finally show ?thesis .
  qed
  have "einsum_nm_mi_njm (A2 ?G) Cm (Ten ?d ?m ?D)
      = Inr (Ten ?d ?n (map (\<lambda>i. map (\<lambda>j. map (\<lambda>p.
             sum_list (map (\<lambda>q. rows ?G ! bidx ?n p ! bidx ?m q * (rows Cm ! bidx ?m q ! i)
                 * (?D ! bidx ?n p ! j ! bidx ?m q)) [0..<?m])) [0..<?n]) [0..<?d]) [0..<?d]))"
    unfolding einsum_nm_mi_njm_def
    by (simp only: ndarray.case dims mC dC bsize_same ten.sel option.case Option.bind.simps)
  also have "\<dots> = Inr (Ten ?d ?n (map (\<lambda>i. map (\<lambda>j. map (\<lambda>xp. kernel_sum b Xc Cm xp i j) (rows x))
                          [0..<?d]) [0..<?d]))"
    by (simp add: inner cong: map_cong)
  finally show ?thesis .
qed

lemma jacobian_vectorized:
  assumes kx: "vf_X_ctrl vf = Some Xc" and kb: "vf_beta vf = Some b" and kc: "vf_C vf = Some Cm"
    and wX: "wf_mat Xc" and dX: "ncols Xc = ncols x" and mC: "nrows Cm = nrows Xc"
    and dC: "ncols Cm = ncols x" and wx: "wf_mat x" and m1: "nrows Xc \<noteq> 1"
  shows "Jacobian_rkhs_gaussian (Points x) vf True = Inr (A3 (jac_closed_form b Xc Cm x))"
proof -
  let ?D = "Ten (ncols x) (nrows Xc)
              (map (\<lambda>xi. map (\<lambda>k. map (\<lambda>yj. xi ! k - yj ! k) (rows Xc)) [0..<ncols x]) (rows x))"
  have ck: "con_K x Xc b ''cdist'' True = Inr (WithD (squeeze2 (gauss_matrix b x Xc)) ?D)"
    using con_K_gauss(2)[OF wx wX refl dX, where meth = "''cdist''" and return_d = True and beta = b]
    by simp
  have wG: "wf_mat (gauss_matrix b x Xc)" unfolding gauss_matrix_def by (rule gauss_rows_wf)
  have nG: "ncols (gauss_matrix b x Xc) \<noteq> 1" using m1 by (simp add: gauss_matrix_def)
  have st: "tscale (- 2 * b) (Ten (ncols x) (nrows x)
           (map (\<lambda>i. map (\<lambda>j. map (\<lambda>xp. kernel_sum b Xc Cm xp i j) (rows x))
                          [0..<ncols x]) [0..<ncols x])) = jac_closed_form b Xc Cm x"
    by (simp add: tscale_def jac_closed_form_def comp_def)
  have "Jacobian_rkhs_gaussian (Points x) vf True
      = seq (einsum_nm_mi_njm (A2 (gauss_matrix b x Xc)) Cm ?D)
          (\<lambda>J. seq (lookup (vf_beta vf)) (\<lambda>b. Inr (A3 (tscale (- 2 * b) J))))"
    by (simp add: Jacobian_rkhs_gaussian_def kx kb kc lookup_def ck restore_point_axis[OF wG nG]
          seq_def[of "Inr _"] Let_def)
  then show ?thesis using st
    by (simp add: einsum_closed[OF mC dC] seq_def kb lookup_def)
qed

text \<open>
  For a model whose control points and coefficients have the shapes \<open>(m, d)\<close> with
  \<open>m \<noteq> 1\<close>, and points of shape \<open>(n, d)\<close>, the loop over the points returns the closed form
  and the \<open>einsum\<close> path returns the same tensor.
\<close>

theorem Jacobian_rkhs_gaussian_paths_agree:
  assumes "vf_X_ctrl vf = Some Xc" and "vf_beta vf = Some b" and "vf_C vf = Some Cm"
    and "wf_mat Xc" and "ncols Xc = ncols x" and "nrows Cm = nrows Xc"
    and "ncols Cm = ncols x" and "wf_mat x" and "nrows Xc \<noteq> 1"
  shows "Jacobian_rkhs_gaussian (Points x) vf False = Inr (A3 (jac_closed_form b Xc Cm x))"
    and "Jacobian_rkhs_gaussian (Points x) vf True = Jacobian_rkhs_gaussian (Points x) vf False"
  using jacobian_loop[OF assms] jacobian_vectorized[OF assms] by simp_all

text \<open>Two points and two control points on a line.\<close>

lemma Jacobian_rkhs_gaussian_paths_agree_example:
  "Jacobian_rkhs_gaussian (Points (Mat 1 [[0], [1]]))
      \<lparr>vf_X_ctrl = Some (Mat 1 [[0], [1]]), vf_beta = Some 1, vf_C = Some (Mat 1 [[1], [2]]),
       vf_sigma = None, vf_eta = None, vf_div_cur_free_kernels = None\<rparr> True
     = Jacobian_rkhs_gaussian (Points (Mat 1 [[0], [1]]))
      \<lparr>vf_X_ctrl = Some (Mat 1 [[0], [1]]), vf_beta = Some 1, vf_C = Some (Mat 1 [[1], [2]]),
       vf_sigma = None, vf_eta = None, vf_div_cur_free_kernels = None\<rparr> False"
  by (rule Jacobian_rkhs_gaussian_paths_agree(2)
        [where Xc = "Mat 1 [[0], [1]]" and b = 1 and Cm = "Mat 1 [[1], [2]]"])
     (simp_all add: wf_mat_def nrows_def)

text \<open>
  C4. The loop over the points and the \<open>einsum\<close> path are to compute the same Jacobian. For
  the model with the single control point 0, the coefficient 1 and \<open>beta = 1\<close>, at the single
  point 1, the loop returns the \<open>1 \<times> 1 \<times> 1\<close> tensor with the entry \<open>-2 exp(-1)\<close>. On the
  other path \<open>K\<close> is the 0-D array of the theorem above, the test \<open>K.ndim == 1\<close> leaves it
  as it is, and \<open>einsum\<close> raises ValueError for an operand with fewer axes than its
  subscripts \<open>nm\<close>.
\<close>

theorem Jacobian_rkhs_gaussian_single_control_point:
  "Jacobian_rkhs_gaussian (Points (Mat 1 [[1]]))
      \<lparr>vf_X_ctrl = Some (Mat 1 [[0]]), vf_beta = Some 1, vf_C = Some (Mat 1 [[1]]),
       vf_sigma = None, vf_eta = None, vf_div_cur_free_kernels = None\<rparr> False
     = Inr (A3 (Ten 1 1 [[[- 2 * exp (- 1)]]])) \<and>
   Jacobian_rkhs_gaussian (Points (Mat 1 [[1]]))
      \<lparr>vf_X_ctrl = Some (Mat 1 [[0]]), vf_beta = Some 1, vf_C = Some (Mat 1 [[1]]),
       vf_sigma = None, vf_eta = None, vf_div_cur_free_kernels = None\<rparr> True
     = Inl ValueError"
  by (simp add: Jacobian_rkhs_gaussian_def jac_point_def mat_times_def mat_binop_def
        ten_index0_def matmul_def mat_T_def assign_mat_def stack_last_def tscale_def
        einsum_nm_mi_njm_def kernel_eval array_eval)

section \<open>The kernel argument of the vector field function\<close>

text \<open>
  The product of the Gaussian kernel with the coefficients \<open>C\<close> is the Gaussian field, for
  one point and for a matrix of points, and the \<open>cdist\<close> path of \<open>con_K\<close> returns the kernel
  whenever \<open>x\<close> and \<open>y\<close> have the same number of columns.
\<close>

lemma dotp_map2:
  assumes "length xs = length ys"
  shows "dotp (map f xs) (map g ys) = sum_list (map (\<lambda>q. f (xs ! q) * g (ys ! q)) [0..<length xs])"
proof -
  have "map2 (\<lambda>a b. a * b) (map f xs) (map g ys) = map (\<lambda>q. f (xs ! q) * g (ys ! q)) [0..<length xs]"
    using assms by (intro nth_equalityI) auto
  then show ?thesis by (simp add: dotp_def)
qed

lemma kernel_row_dot:
  assumes "nrows Cm = nrows Xc"
  shows "vec_dot_mat (map (gauss b xi) (rows Xc)) Cm = Inr (gauss_field b Xc Cm xi)"
  using assms
  by (simp add: vec_dot_mat_def gauss_field_def nrows_def dotp_map2)

lemma kernel_matrix_dot:
  assumes "nrows Cm = nrows Xc"
  shows "matmul (gauss_matrix b x Xc) Cm = Inr (Mat (ncols Cm) (map (gauss_field b Xc Cm) (rows x)))"
  using assms
  by (simp add: matmul_def gauss_matrix_def gauss_field_def nrows_def dotp_map2)

lemma kernel_row_dot_column:
  assumes "nrows Cm = nrows Xc" and "k < ncols Cm"
  shows "np_dot (map (gauss b xi) (rows Xc)) (map (\<lambda>r. r ! k) (rows Cm))
           = Inr (gauss_field b Xc Cm xi ! k)"
  using assms
  by (simp add: np_dot_def gauss_field_def nrows_def dotp_map2)

lemma kernel_matrix_dot_column:
  assumes "nrows Cm = nrows Xc" and "k < ncols Cm"
  shows "mat_dot_vec (gauss_matrix b x Xc) (map (\<lambda>r. r ! k) (rows Cm))
           = Inr (map (\<lambda>xi. gauss_field b Xc Cm xi ! k) (rows x))"
  using assms
  by (simp add: mat_dot_vec_def gauss_matrix_def gauss_field_def nrows_def dotp_map2)

lemma con_K_cdist:
  assumes "ncols x = ncols y"
  shows "con_K x y beta ''cdist'' False
           = Inr (OnlyK (if nrows x = 1 then A1 (map (gauss beta (rows x ! 0)) (rows y))
                         else A2 (gauss_matrix beta x y)))"
proof (cases "nrows x = 1")
  case True
  then obtain r where "rows x = [r]" by (cases "rows x") (auto simp: nrows_def)
  then show ?thesis using assms
    by (simp add: con_K_def cdist_sqeuclidean_def seq_def nrows_def gauss_def comp_def)
next
  case False
  then show ?thesis using assms
    by (simp add: con_K_def cdist_sqeuclidean_def seq_def nrows_def gauss_matrix_def gauss_def comp_def)
qed

lemma gaussian_field_returned:
  assumes "vf_div_cur_free_kernels vf = None" "vf_X_ctrl vf = Some Xc" "vf_beta vf = Some b"
    "vf_C vf = Some Cm" "ncols (atleast_2d x) = ncols Xc" "nrows Cm = nrows Xc"
  shows "vector_field_function ckdcf x vf None kernel' \<lparr>kw_method = None, kw_return_d = None\<rparr>
        = Inr (if nrows (atleast_2d x) = 1 then A1 (gauss_field b Xc Cm (rows (atleast_2d x) ! 0))
               else A2 (Mat (ncols Cm) (map (gauss_field b Xc Cm) (rows (atleast_2d x)))))"
  using assms
  by (simp add: vector_field_function_def lookup_def seq_def con_K_cdist nd_dot_def
      kernel_row_dot kernel_matrix_dot)

lemma gaussian_field_component_returned:
  assumes "vf_div_cur_free_kernels vf = None" "vf_X_ctrl vf = Some Xc" "vf_beta vf = Some b"
    "vf_C vf = Some Cm" "ncols (atleast_2d x) = ncols Xc" "nrows Cm = nrows Xc"
    "k < ncols Cm"
  shows "vector_field_function ckdcf x vf (Some (int k)) kernel' \<lparr>kw_method = None, kw_return_d = None\<rparr>
        = Inr (if nrows (atleast_2d x) = 1 then A0 (gauss_field b Xc Cm (rows (atleast_2d x) ! 0) ! k)
               else A1 (map (\<lambda>xi. gauss_field b Xc Cm xi ! k) (rows (atleast_2d x))))"
  using assms
  by (simp add: vector_field_function_def lookup_def seq_def con_K_cdist nd_dot_def
      column_py_def column_def kernel_row_dot_column kernel_matrix_dot_column)

text \<open>
  C5. A call with a kernel name other than \<open>'full'\<close> on a model without the key
  \<open>div_cur_free_kernels\<close> is to fail with an error. The code reads the argument \<open>kernel\<close>
  only inside the branch for a model that has the key:

  \<^item> for a model without the key the call does, with every kernel name, what it does with
    \<open>'full'\<close>, whatever the other arguments are;

  \<^item> when such a model holds \<open>X_ctrl\<close>, \<open>beta\<close> and \<open>C\<close> with one row of \<open>C\<close> for every control
    point, \<open>x\<close> has as many coordinates as the control points and no keyword argument is
    passed, the call returns with every kernel name: its value is the Gaussian field of the
    point, a 1-D array, or the matrix with the Gaussian field of every point as a row when
    \<open>x\<close> holds a number of points other than one;

  \<^item> with \<open>dim = k\<close> for a column \<open>k\<close> of \<open>C\<close> it returns the component \<open>k\<close> of that field, a
    0-D array for one point and a 1-D array otherwise;

  \<^item> a model that has the key and a kernel name that is none of \<open>'full'\<close>, \<open>'df_kernel'\<close> and
    \<open>'cf_kernel'\<close> raise ValueError.
\<close>

theorem vector_field_function_kernel_ignored:
  "(vf_div_cur_free_kernels vf = None \<longrightarrow>
      vector_field_function ckdcf x vf dim' kernel' kwargs
        = vector_field_function ckdcf x vf dim' ''full'' kwargs) \<and>
   (vf_div_cur_free_kernels vf = None \<and> vf_X_ctrl vf = Some Xc \<and> vf_beta vf = Some b
      \<and> vf_C vf = Some Cm \<and> ncols (atleast_2d x) = ncols Xc \<and> nrows Cm = nrows Xc \<longrightarrow>
      vector_field_function ckdcf x vf None kernel' \<lparr>kw_method = None, kw_return_d = None\<rparr>
        = Inr (if nrows (atleast_2d x) = 1 then A1 (gauss_field b Xc Cm (rows (atleast_2d x) ! 0))
               else A2 (Mat (ncols Cm) (map (gauss_field b Xc Cm) (rows (atleast_2d x)))))) \<and>
   (vf_div_cur_free_kernels vf = None \<and> vf_X_ctrl vf = Some Xc \<and> vf_beta vf = Some b
      \<and> vf_C vf = Some Cm \<and> ncols (atleast_2d x) = ncols Xc \<and> nrows Cm = nrows Xc
      \<and> k < ncols Cm \<longrightarrow>
      vector_field_function ckdcf x vf (Some (int k)) kernel' \<lparr>kw_method = None, kw_return_d = None\<rparr>
        = Inr (if nrows (atleast_2d x) = 1 then A0 (gauss_field b Xc Cm (rows (atleast_2d x) ! 0) ! k)
               else A1 (map (\<lambda>xi. gauss_field b Xc Cm xi ! k) (rows (atleast_2d x))))) \<and>
   (vf_div_cur_free_kernels vf \<noteq> None \<and> kernel' \<noteq> ''full'' \<and> kernel' \<noteq> ''df_kernel''
      \<and> kernel' \<noteq> ''cf_kernel'' \<longrightarrow>
      vector_field_function ckdcf x vf dim' kernel' kwargs = Inl ValueError)"
proof (intro conjI impI)
  assume "vf_div_cur_free_kernels vf = None"
  then show "vector_field_function ckdcf x vf dim' kernel' kwargs
        = vector_field_function ckdcf x vf dim' ''full'' kwargs"
    by (simp add: vector_field_function_def)
next
  assume "vf_div_cur_free_kernels vf = None \<and> vf_X_ctrl vf = Some Xc \<and> vf_beta vf = Some b
      \<and> vf_C vf = Some Cm \<and> ncols (atleast_2d x) = ncols Xc \<and> nrows Cm = nrows Xc"
  then show "vector_field_function ckdcf x vf None kernel' \<lparr>kw_method = None, kw_return_d = None\<rparr>
        = Inr (if nrows (atleast_2d x) = 1 then A1 (gauss_field b Xc Cm (rows (atleast_2d x) ! 0))
               else A2 (Mat (ncols Cm) (map (gauss_field b Xc Cm) (rows (atleast_2d x)))))"
    using gaussian_field_returned[of vf Xc b Cm x] by blast
next
  assume "vf_div_cur_free_kernels vf = None \<and> vf_X_ctrl vf = Some Xc \<and> vf_beta vf = Some b
      \<and> vf_C vf = Some Cm \<and> ncols (atleast_2d x) = ncols Xc \<and> nrows Cm = nrows Xc
      \<and> k < ncols Cm"
  then show "vector_field_function ckdcf x vf (Some (int k)) kernel' \<lparr>kw_method = None, kw_return_d = None\<rparr>
        = Inr (if nrows (atleast_2d x) = 1 then A0 (gauss_field b Xc Cm (rows (atleast_2d x) ! 0) ! k)
               else A1 (map (\<lambda>xi. gauss_field b Xc Cm xi ! k) (rows (atleast_2d x))))"
    using gaussian_field_component_returned[of vf Xc b Cm x k] by blast
next
  assume "vf_div_cur_free_kernels vf \<noteq> None \<and> kernel' \<noteq> ''full'' \<and> kernel' \<noteq> ''df_kernel''
      \<and> kernel' \<noteq> ''cf_kernel''"
  then show "vector_field_function ckdcf x vf dim' kernel' kwargs = Inl ValueError"
    by (simp add: vector_field_function_def seq_def)
qed

text \<open>
  A Gaussian model with the control points \<open>(0, 0)\<close> and \<open>(1, 0)\<close>, the coefficients
  \<open>(1, 0)\<close> and \<open>(0, 1)\<close> and \<open>beta = 1\<close>, asked for \<open>'cf_kernel'\<close> at the point \<open>(0, 0)\<close>:
  the field is \<open>(1, exp(-1))\<close> and its component 1 is \<open>exp(-1)\<close>. A model with the two
  kernels asked for \<open>'gaussian'\<close> raises ValueError.
\<close>

theorem vector_field_function_kernel_ignored_witness:
  "vector_field_function (\<lambda>x y s e. Inr (x, x, x)) (Point [0, 0])
      \<lparr>vf_X_ctrl = Some (Mat 2 [[0, 0], [1, 0]]), vf_beta = Some 1,
       vf_C = Some (Mat 2 [[1, 0], [0, 1]]),
       vf_sigma = None, vf_eta = None, vf_div_cur_free_kernels = None\<rparr>
      None ''cf_kernel'' \<lparr>kw_method = None, kw_return_d = None\<rparr>
     = vector_field_function (\<lambda>x y s e. Inr (x, x, x)) (Point [0, 0])
      \<lparr>vf_X_ctrl = Some (Mat 2 [[0, 0], [1, 0]]), vf_beta = Some 1,
       vf_C = Some (Mat 2 [[1, 0], [0, 1]]),
       vf_sigma = None, vf_eta = None, vf_div_cur_free_kernels = None\<rparr>
      None ''full'' \<lparr>kw_method = None, kw_return_d = None\<rparr> \<and>
   vector_field_function (\<lambda>x y s e. Inr (x, x, x)) (Point [0, 0])
      \<lparr>vf_X_ctrl = Some (Mat 2 [[0, 0], [1, 0]]), vf_beta = Some 1,
       vf_C = Some (Mat 2 [[1, 0], [0, 1]]),
       vf_sigma = None, vf_eta = None, vf_div_cur_free_kernels = None\<rparr>
      None ''cf_kernel'' \<lparr>kw_method = None, kw_return_d = None\<rparr>
     = Inr (A1 [1, exp (- 1)]) \<and>
   vector_field_function (\<lambda>x y s e. Inr (x, x, x)) (Point [0, 0])
      \<lparr>vf_X_ctrl = Some (Mat 2 [[0, 0], [1, 0]]), vf_beta = Some 1,
       vf_C = Some (Mat 2 [[1, 0], [0, 1]]),
       vf_sigma = None, vf_eta = None, vf_div_cur_free_kernels = None\<rparr>
      (Some 1) ''cf_kernel'' \<lparr>kw_method = None, kw_return_d = None\<rparr>
     = Inr (A0 (exp (- 1))) \<and>
   vector_field_function (\<lambda>x y s e. Inr (x, x, x)) (Point [0])
      \<lparr>vf_X_ctrl = Some (Mat 1 [[0]]), vf_beta = None, vf_C = Some (Mat 1 [[1]]),
       vf_sigma = Some 1, vf_eta = Some (1/2), vf_div_cur_free_kernels = Some True\<rparr>
      None ''gaussian'' \<lparr>kw_method = None, kw_return_d = None\<rparr> = Inl ValueError"
proof -
  note g = vector_field_function_kernel_ignored
      [where vf = "\<lparr>vf_X_ctrl = Some (Mat 2 [[0, 0], [1, 0]]), vf_beta = Some 1,
            vf_C = Some (Mat 2 [[1, 0], [0, 1]]),
            vf_sigma = None, vf_eta = None, vf_div_cur_free_kernels = None\<rparr>"
         and ckdcf = "\<lambda>x y s e. Inr (x, x, x)" and x = "Point [0, 0]" and dim' = None
         and kernel' = "''cf_kernel''" and kwargs = "\<lparr>kw_method = None, kw_return_d = None\<rparr>"
         and Xc = "Mat 2 [[0, 0], [1, 0]]" and b = 1 and Cm = "Mat 2 [[1, 0], [0, 1]]" and k = 1]
  note v = vector_field_function_kernel_ignored
      [where vf = "\<lparr>vf_X_ctrl = Some (Mat 1 [[0]]), vf_beta = None, vf_C = Some (Mat 1 [[1]]),
            vf_sigma = Some 1, vf_eta = Some (1/2), vf_div_cur_free_kernels = Some True\<rparr>"
         and ckdcf = "\<lambda>x y s e. Inr (x, x, x)" and x = "Point [0]" and dim' = None
         and kernel' = "''gaussian''" and kwargs = "\<lparr>kw_method = None, kw_return_d = None\<rparr>"]
  from g have a: "vector_field_function (\<lambda>x y s e. Inr (x, x, x)) (Point [0, 0])
      \<lparr>vf_X_ctrl = Some (Mat 2 [[0, 0], [1, 0]]), vf_beta = Some 1,
       vf_C = Some (Mat 2 [[1, 0], [0, 1]]),
       vf_sigma = None, vf_eta = None, vf_div_cur_free_kernels = None\<rparr>
      None ''cf_kernel'' \<lparr>kw_method = None, kw_return_d = None\<rparr>
     = vector_field_function (\<lambda>x y s e. Inr (x, x, x)) (Point [0, 0])
      \<lparr>vf_X_ctrl = Some (Mat 2 [[0, 0], [1, 0]]), vf_beta = Some 1,
       vf_C = Some (Mat 2 [[1, 0], [0, 1]]),
       vf_sigma = None, vf_eta = None, vf_div_cur_free_kernels = None\<rparr>
      None ''full'' \<lparr>kw_method = None, kw_return_d = None\<rparr>"
    by simp
  from conjunct1[OF conjunct2[OF g]] have b: "vector_field_function (\<lambda>x y s e. Inr (x, x, x)) (Point [0, 0])
      \<lparr>vf_X_ctrl = Some (Mat 2 [[0, 0], [1, 0]]), vf_beta = Some 1,
       vf_C = Some (Mat 2 [[1, 0], [0, 1]]),
       vf_sigma = None, vf_eta = None, vf_div_cur_free_kernels = None\<rparr>
      None ''cf_kernel'' \<lparr>kw_method = None, kw_return_d = None\<rparr>
     = Inr (A1 [1, exp (- 1)])"
    by (simp add: atleast_2d_def gauss_field_def gauss_def array_eval)
  from conjunct1[OF conjunct2[OF conjunct2[OF g]]] have c: "vector_field_function (\<lambda>x y s e. Inr (x, x, x)) (Point [0, 0])
      \<lparr>vf_X_ctrl = Some (Mat 2 [[0, 0], [1, 0]]), vf_beta = Some 1,
       vf_C = Some (Mat 2 [[1, 0], [0, 1]]),
       vf_sigma = None, vf_eta = None, vf_div_cur_free_kernels = None\<rparr>
      (Some 1) ''cf_kernel'' \<lparr>kw_method = None, kw_return_d = None\<rparr>
     = Inr (A0 (exp (- 1)))"
    by (simp add: atleast_2d_def gauss_field_def gauss_def array_eval)
  from v have d: "vector_field_function (\<lambda>x y s e. Inr (x, x, x)) (Point [0])
      \<lparr>vf_X_ctrl = Some (Mat 1 [[0]]), vf_beta = None, vf_C = Some (Mat 1 [[1]]),
       vf_sigma = Some 1, vf_eta = Some (1/2), vf_div_cur_free_kernels = Some True\<rparr>
      None ''gaussian'' \<lparr>kw_method = None, kw_return_d = None\<rparr> = Inl ValueError"
    by simp
  show ?thesis
    by (intro conjI) (rule a, rule b, rule c, rule d)
qed

text \<open>
  The claim as it was stated fails: a model with one control point at 0, the coefficient 1
  and no divergence-free or curl-free kernel, asked for \<open>'df_kernel'\<close> at the point 0, returns
  the value \<open>exp(0) * 1 = 1\<close> of the Gaussian field.
\<close>

theorem vector_field_function_df_kernel_returns:
  "vector_field_function (\<lambda>x y s e. Inr (x, x, x)) (Point [0])
      \<lparr>vf_X_ctrl = Some (Mat 1 [[0]]), vf_beta = Some 1, vf_C = Some (Mat 1 [[1]]),
       vf_sigma = None, vf_eta = None, vf_div_cur_free_kernels = None\<rparr>
      None ''df_kernel'' \<lparr>kw_method = None, kw_return_d = None\<rparr> = Inr (A1 [1])"
  by (simp add: vector_field_function_def lookup_def atleast_2d_def nd_dot_def vec_dot_mat_def
        con_K_def cdist_sqeuclidean_def array_eval)

section \<open>Curl, curvature and torsion\<close>

lemma map_result_first_error: "f x = Inl e \<Longrightarrow> map_result f (x # xs) = Inl e"
  by (simp add: seq_def)

text \<open>
  On a 3-D input with at least one point, and a Jacobian function that returns \<open>3 \<times> 3\<close>
  matrices, \<open>compute_curl\<close> never returns: the first point already raises ValueError.
\<close>

lemma compute_curl_3d_never_returns:
  assumes d: "ncols X = 3" and n: "0 < nrows X"
    and J: "\<And>x. \<exists>J. f_jac x = Inr J \<and> nrows J = 3 \<and> ncols J = 3"
  shows "compute_curl f_jac X = Inl ValueError"
proof -
  obtain J where J0: "f_jac (rows X ! 0) = Inr J" "nrows J = 3" "ncols J = 3" using J by blast
  then obtain v where v: "u_curl J = Inr v" "length v = 3"
    by (simp add: u_curl_def mat_at_def seq_def)
  have "assign_rows 2 2 v = Inl ValueError" using v by (simp add: assign_rows_def)
  then have body: "seq (mat_row X 0) (\<lambda>xi. seq (f_jac xi) (\<lambda>J. seq (u_curl J) (assign_rows 2 2)))
      = Inl ValueError"
    using n J0 v by (simp add: mat_row_def seq_def)
  have up: "[0..<nrows X] = 0 # [1..<nrows X]" using n by (simp add: upt_rec)
  have "map_result (\<lambda>i. seq (mat_row X i) (\<lambda>xi. seq (f_jac xi) (\<lambda>J. seq (u_curl J) (assign_rows 2 2))))
          [0..<nrows X] = Inl ValueError"
    unfolding up by (rule map_result_first_error) (rule body)
  then show ?thesis using d by (simp add: compute_curl_def Let_def seq_def)
qed

text \<open>
  C6. \<open>compute_curl\<close> is to raise the dimension error exactly outside two and three
  dimensions and to return, for every point of a 3-D input, the 3-vector
  \<open>(J[2,1] - J[1,2], J[0,2] - J[2,0], J[1,0] - J[0,1])\<close>. The rotation field
  \<open>f(x, y, z) = (-y, x, 0)\<close> has the constant Jacobian below and the curl \<open>(0, 0, 2)\<close>,
  which \<open>_curl\<close> computes; \<open>compute_curl\<close> then stores it into a slot of shape \<open>(2, 2)\<close> of
  its result array \<open>np.zeros((n, 2, 2))\<close>, which raises ValueError. So the call on one 3-D
  point raises instead of returning the curl. In two dimensions the rotation field
  \<open>(-y, x)\<close> gives the curl 2, as claimed. A 1-D input passes the guard \<open>X.shape[1] > 3\<close>
  and raises IndexError inside \<open>_curl\<close>; a 4-D input raises the dimension error.
\<close>

theorem compute_curl_3d_raises:
  "u_curl (Mat 3 [[0, - 1, 0], [1, 0, 0], [0, 0, 0]]) = Inr [0, 0, 2] \<and>
   compute_curl (\<lambda>x. Inr (Mat 3 [[0, - 1, 0], [1, 0, 0], [0, 0, 0]])) (Mat 3 [[0, 0, 0]])
     = Inl ValueError \<and>
   compute_curl (\<lambda>x. Inr (Mat 2 [[0, - 1], [1, 0]])) (Mat 2 [[0, 0]]) = Inr (A1 [2]) \<and>
   compute_curl (\<lambda>x. Inr (Mat 1 [[1]])) (Mat 1 [[0]]) = Inl IndexError \<and>
   compute_curl (\<lambda>x. Inr (Mat 4 [])) (Mat 4 [[0, 0, 0, 0]]) = Inl PyException"
  by (simp add: compute_curl_def u_curl_def curl2d_def array_eval)

text \<open>
  The Frobenius norm of the outer product of two vectors is the product of their norms, so
  \<open>curvature_\<close> returns \<open>|v| |a| / |v|\<^sup>3\<close> whatever the angle between \<open>v\<close> and \<open>a\<close>.
\<close>

lemma sumsq_scaled: "sumsq (map (\<lambda>y. x * y) a) = x ^ 2 * sumsq a"
  by (induction a) (simp_all add: sumsq_def power_mult_distrib distrib_left)

lemma sumsq_outer: "sum_list (map sumsq (rows (outer v a))) = sumsq v * sumsq a"
proof (induction v)
  case Nil
  then show ?case by (simp add: outer_def sumsq_def)
next
  case (Cons x v)
  have "sum_list (map sumsq (rows (outer (x # v) a)))
      = x ^ 2 * sumsq a + sum_list (map sumsq (rows (outer v a)))"
    by (simp add: outer_def sumsq_scaled)
  also have "\<dots> = x ^ 2 * sumsq a + sumsq v * sumsq a" by (simp only: Cons.IH)
  also have "\<dots> = sumsq (x # v) * sumsq a" by (simp add: sumsq_def algebra_simps)
  finally show ?case .
qed

lemma fro_norm_outer: "fro_norm (outer v a) = norm2 v * norm2 a"
  by (simp add: fro_norm_def sumsq_outer norm2_def real_sqrt_mult)

lemma curvature_is_ratio_of_norms:
  "curvature' a (A1 v) = Inr (norm2 v * norm2 a / norm2 v ^ 3)"
  by (simp add: curvature'_def fro_norm_outer)

text \<open>
  C7. \<open>curvature_(a, v)\<close> is to return the norm of the vector product of \<open>v\<close> and \<open>a\<close>
  over the cube of the speed. For \<open>v = a = (1, 0, 0)\<close> the vector product vanishes and
  that value is 0; the code takes the Frobenius norm of the outer product of \<open>v\<close> and
  \<open>a\<close> and returns 1. \<open>compute_curvature\<close> returns the same for a point with the velocity
  \<open>(1, 0, 0)\<close> and the identity as its Jacobian, where the acceleration is \<open>(1, 0, 0)\<close> too.
\<close>

theorem curvature_outer_product:
  "curvature' [1, 0, 0] (A1 [1, 0, 0]) = Inr 1 \<and>
   norm2 (cross3 [1, 0, 0] [1, 0, 0]) / norm2 [1, 0, 0] ^ 3 = 0 \<and>
   compute_curvature (\<lambda>X. Inr (Mat 3 [[1, 0, 0]]))
       (\<lambda>X. Inr (Ten 3 1 [[[1], [0], [0]], [[0], [1], [0]], [[0], [0], [1]]]))
       (Mat 3 [[0, 0, 0]]) = Inr [1]"
  by (simp add: curvature'_def compute_curvature_def compute_acceleration_def acceleration'_def
        cross3_def array_eval)

text \<open>
  C8. \<open>compute_torsion\<close> is to return, for every 3-D point, the scalar
  \<open>(v \<times> a) \<cdot> (J a) / |v \<times> a|\<^sup>2\<close>. At one point with the velocity \<open>v = (1, 0, 0)\<close>
  and the Jacobian \<open>J\<close> with the rows \<open>(0,0,0)\<close>, \<open>(1,0,0)\<close>, \<open>(0,1,0)\<close> the acceleration is
  \<open>a = J v = (0, 1, 0)\<close>, \<open>v \<times> a = (0, 0, 1)\<close>, \<open>J a = (0, 0, 1)\<close> and the torsion is 1.
  The code returns an array of shape \<open>(1, 3, 3)\<close> that holds the vector
  \<open>outer(v, a) (J a) / |outer(v, a)|\<^sup>2 = (0, 0, 0)\<close> in each of its three rows. A 2-D input
  raises the dimension error, as claimed.
\<close>

theorem compute_torsion_outer_product:
  "compute_torsion (\<lambda>X. Inr (Mat 3 [[1, 0, 0]]))
       (\<lambda>X. Inr (Ten 3 1 [[[0], [0], [0]], [[1], [0], [0]], [[0], [1], [0]]]))
       (Mat 3 [[0, 0, 0]])
     = Inr (Ten 3 3 [[[0, 0, 0], [0, 0, 0], [0, 0, 0]]]) \<and>
   dotp (cross3 [1, 0, 0] [0, 1, 0]) [0, 0, 1] / sumsq (cross3 [1, 0, 0] [0, 1, 0]) = 1 \<and>
   compute_torsion (\<lambda>X. Inr (Mat 2 [[1, 0]])) (\<lambda>X. Inr (Ten 2 1 [[[0], [0]], [[1], [0]]]))
       (Mat 2 [[0, 0]]) = Inl PyException"
  by (simp add: compute_torsion_def compute_acceleration_def acceleration'_def torsion'_def
        cross3_def array_eval)

section \<open>The Jacobian in the original space, on one worker and on several\<close>

text \<open>
  The loop over a list of lists and over their concatenation; the chunks of \<open>range\<close> cover
  the points in order.
\<close>


lemma segments_cover:
  assumes "0 < k"
  shows "concat (map (\<lambda>j. [j * k..<min n (j * k + k)]) [0..<q]) = [0..<min n (q * k)]"
proof (induction q)
  case 0
  then show ?case by simp
next
  case (Suc q)
  show ?case
  proof (cases "q * k \<le> n")
    case True
    then have le: "q * k \<le> min n (q * k + k)" by simp
    have "[0..<q * k] @ [q * k..<min n (q * k + k)] = [0..<min n (q * k + k)]"
      by (rule upt_split[OF _ le]) simp
    with True have "[0..<min n (q * k)] @ [q * k..<min n (q * k + k)] = [0..<min n (q * k + k)]"
      by (simp add: min_absorb2)
    then show ?thesis using Suc.IH by (simp add: add.commute)
  next
    case False
    then show ?thesis using Suc.IH by (simp add: min_def)
  qed
qed

lemma ceil_chunks: 
  assumes "0 < k"
  shows "n \<le> ((n + k - 1) div k) * (k::nat)"
proof -
  have "(n + k - 1) div k * k = (n + k - 1) - (n + k - 1) mod k"
    by (simp add: minus_mod_eq_div_mult)
  moreover have "(n + k - 1) mod k \<le> k - 1" using assms
    by (metis Suc_pred less_Suc_eq_le mod_less_divisor One_nat_def)
  ultimately show ?thesis using assms by simp
qed

lemma range_segments:
  assumes "0 < k"
  shows "concat (map (\<lambda>s. [s..<min n (s + k)]) (range_step n k)) = [0..<n]"
proof -
  have "concat (map (\<lambda>s. [s..<min n (s + k)]) (range_step n k))
      = concat (map (\<lambda>j. [j * k..<min n (j * k + k)]) [0..<(n + k - 1) div k])"
    by (simp add: range_step_def comp_def)
  also have "\<dots> = [0..<min n ((n + k - 1) div k * k)]"
    by (rule segments_cover[OF assms])
  also have "\<dots> = [0..<n]" using ceil_chunks[OF assms, of n] by (simp add: min_def)
  finally show ?thesis .
qed


lemma ten_slice2_chunk:
  assumes wf: "wf_ten Js" and i: "i < min k (dim2 Js - s)"
  shows "ten_slice2 (ten_chunk Js s k) i = ten_slice2 Js (s + i)"
proof -
  have len: "\<And>slab r. slab \<in> set (slabs Js) \<Longrightarrow> r \<in> set slab \<Longrightarrow> length r = dim2 Js"
    using wf by (auto simp: wf_ten_def list_all_iff)
  have "take k (drop s r) ! i = r ! (s + i)" if "slab \<in> set (slabs Js)" "r \<in> set slab" for slab r
  proof -
    have "s \<le> length r" using len[OF that] i by arith
    then show ?thesis using i by simp
  qed
  then have "map (map (\<lambda>r. take k (drop s r) ! i)) (slabs Js) = map (map (\<lambda>r. r ! (s + i))) (slabs Js)"
    by (auto intro!: map_cong)
  moreover have "s + i < dim2 Js" using i by arith
  ultimately show ?thesis using i by (simp add: ten_slice2_def ten_chunk_def comp_def)
qed

lemma transform_jacobian_chunk:
  assumes wf: "wf_ten Js"
  shows "transform_jacobian (ten_chunk Js s k) Qi Qj =
     seq (map_result (transform_point Js Qi Qj) [s..<min (dim2 Js) (s + k)])
         (\<lambda>ms. Inr (stack_last (nrows Qi) (nrows Qj) ms))"
proof -
  let ?nc = "min k (dim2 Js - s)"
  have "map_result (transform_point (ten_chunk Js s k) Qi Qj) [0..<?nc]
      = map_result (\<lambda>i. transform_point Js Qi Qj (i + s)) [0..<?nc]"
    by (rule map_result_cong) (simp add: transform_point_def ten_slice2_chunk[OF wf] add.commute)
  also have "\<dots> = map_result (transform_point Js Qi Qj) (map (\<lambda>i. i + s) [0..<?nc])"
    by (simp add: map_result_map)
  also have "map (\<lambda>i. i + s) [0..<?nc] = [s..<?nc + s]" by (rule map_add_upt)
  also have "[s..<?nc + s] = [s..<min (dim2 Js) (s + k)]"
  proof (cases "s \<le> dim2 Js")
    case True
    then have "?nc + s = min (dim2 Js) (s + k)" by arith
    then show ?thesis by simp
  next
    case False
    then show ?thesis by simp
  qed
  finally show ?thesis by (simp add: transform_jacobian_def ten_chunk_def)
qed


lemma transpose_201_stack:
  "transpose_201 (stack_last r c ms) = Ten r c (map (entries r c) ms)"
proof -
  have "map (\<lambda>i. map (\<lambda>a. map (\<lambda>b. map (\<lambda>a. map (\<lambda>b. map (\<lambda>m. rows m ! a ! b) ms) [0..<c]) [0..<r] ! a ! b ! i) [0..<c]) [0..<r]) [0..<length ms]
      = map (\<lambda>i. entries r c (ms ! i)) [0..<length ms]"
    by (auto simp: entries_def)
  also have "\<dots> = map (entries r c) ms" by (rule map_nth_gen)
  finally show ?thesis by (simp add: transpose_201_def stack_last_def)
qed

lemma vstack_entries:
  "mss \<noteq> [] \<Longrightarrow> vstack (map (\<lambda>ms. Ten r c (map (entries r c) ms)) mss)
     = Inr (Ten r c (map (entries r c) (concat mss)))"
  by (cases mss) (auto simp: vstack_def list_all_iff map_concat comp_def)

lemma transpose_120_entries:
  "transpose_120 (Ten r c (map (entries r c) ms)) = stack_last r c ms"
proof -
  have "\<And>a b. a < r \<Longrightarrow> b < c \<Longrightarrow>
      map (\<lambda>i. map (entries r c) ms ! i ! a ! b) [0..<length ms] = map (\<lambda>m. rows m ! a ! b) ms"
  proof -
    fix a b assume ab: "a < r" "b < c"
    have "map (\<lambda>i. map (entries r c) ms ! i ! a ! b) [0..<length ms]
        = map (\<lambda>i. rows (ms ! i) ! a ! b) [0..<length ms]"
      using ab by (auto simp: entries_def)
    also have "\<dots> = map (\<lambda>m. rows m ! a ! b) ms" by (rule map_nth_gen)
    finally show "map (\<lambda>i. map (entries r c) ms ! i ! a ! b) [0..<length ms] = map (\<lambda>m. rows m ! a ! b) ms" .
  qed
  then show ?thesis by (simp add: transpose_120_def stack_last_def)
qed

lemma restack:
  assumes "mss \<noteq> []"
  shows "seq (vstack (map transpose_201 (map (stack_last r c) mss))) (\<lambda>t. Inr (transpose_120 t))
     = Inr (stack_last r c (concat mss))"
  using vstack_entries[OF assms, of r c]
  by (simp add: comp_def transpose_201_stack seq_def transpose_120_entries)


lemma transform_jacobian_chunks:
  assumes wf: "wf_ten Js" and k: "0 < k" and n: "0 < dim2 Js"
  shows "seq (map_result (\<lambda>J. transform_jacobian J Qi Qj)
                (map (\<lambda>i. ten_chunk Js i k) (range_step (dim2 Js) k)))
             (\<lambda>ret. seq (vstack (map transpose_201 ret)) (\<lambda>stacked. Inr (transpose_120 stacked)))
       = transform_jacobian Js Qi Qj"
proof -
  let ?h = "transform_point Js Qi Qj"
  let ?st = "stack_last (nrows Qi) (nrows Qj)"
  let ?segs = "map (\<lambda>s. [s..<min (dim2 Js) (s + k)]) (range_step (dim2 Js) k)"
  have cover: "concat ?segs = [0..<dim2 Js]" by (rule range_segments[OF k])
  have multi: "map_result (\<lambda>J. transform_jacobian J Qi Qj)
                (map (\<lambda>i. ten_chunk Js i k) (range_step (dim2 Js) k))
      = seq (map_result (map_result ?h) ?segs) (\<lambda>mss. Inr (map ?st mss))"
    by (simp add: map_result_map transform_jacobian_chunk[OF wf] map_result_then)
  have single: "transform_jacobian Js Qi Qj
      = seq (seq (map_result (map_result ?h) ?segs) (\<lambda>yss. Inr (concat yss))) (\<lambda>ms. Inr (?st ms))"
    unfolding map_result_concat[symmetric] cover by (simp add: transform_jacobian_def)
  show ?thesis
  proof (cases "map_result (map_result ?h) ?segs")
    case (Inl e)
    then show ?thesis unfolding multi single by (simp add: seq_def)
  next
    case (Inr mss)
    have "?segs \<noteq> []"
    proof
      assume "?segs = []"
      then have "concat ?segs = []" by simp
      with cover have "[0..<dim2 Js] = []" by simp
      with n show False by simp
    qed
    then have "mss \<noteq> []" using map_result_length[OF Inr] by auto
    from restack[OF this, of "nrows Qi" "nrows Qj"] show ?thesis
      unfolding multi single Inr by (simp add: seq_def)
  qed
qed

lemma chunk_size_pos:
  assumes "0 < n" and "0 < (c::int)"
  shows "0 < \<lceil>real n / real_of_int c\<rceil>"
proof -
  have "0 < real n / real_of_int c" using assms by simp
  then show ?thesis by simp
qed

lemma int_pos_not_zero: "0 < (q::int) \<Longrightarrow> (q = 0) = False"
  by simp

lemma int_pos_not_neg: "0 < (q::int) \<Longrightarrow> (q < 0) = False"
  by simp

lemma int_pos_not_below_1: "0 < (q::int) \<Longrightarrow> (q < 1) = False"
  by simp

text \<open>
  For an input with at least one point, and a Jacobian function that returns one Jacobian
  for every point, the call with \<open>c\<close> workers returns what the call with one worker returns,
  the exceptions of \<open>transform_jacobian\<close> included.
\<close>

theorem subset_jacobian_transformation_workers:
  assumes n: "0 < nrows (atleast_2d X)" and c: "0 < c"
    and fj: "\<And>Js. fjac (atleast_2d X) = Inr Js \<Longrightarrow> wf_ten Js \<and> dim2 Js = nrows (atleast_2d X)"
  shows "subset_jacobian_transformation cpu_count fjac X Qi Qj (Some c) return_J
       = subset_jacobian_transformation cpu_count fjac X Qi Qj (Some 1) return_J"
proof (cases "fjac (atleast_2d X)")
  case (Inl e)
  then show ?thesis by (simp add: subset_jacobian_transformation_def seq_def Let_def)
next
  case (Inr Js)
  from fj[OF Inr] have wf: "wf_ten Js" and d: "dim2 Js = nrows (atleast_2d X)" by simp_all
  let ?k = "nat \<lceil>real (nrows (atleast_2d X)) / real_of_int c\<rceil>"
  have kp: "0 < \<lceil>real (nrows (atleast_2d X)) / real_of_int c\<rceil>" by (rule chunk_size_pos[OF n c])
  then have k: "0 < ?k" by simp
  have eq: "seq (map_result (\<lambda>J. transform_jacobian J (atleast_2d Qi) (atleast_2d Qj))
                (map (\<lambda>i. ten_chunk Js i ?k) (range_step (nrows (atleast_2d X)) ?k)))
             (\<lambda>ret. seq (vstack (map transpose_201 ret)) (\<lambda>stacked. Inr (transpose_120 stacked)))
       = transform_jacobian Js (atleast_2d Qi) (atleast_2d Qj)"
    using transform_jacobian_chunks[OF wf k, of "atleast_2d Qi" "atleast_2d Qj"] n d by simp
  note z = int_pos_not_zero[OF kp] and ng = int_pos_not_neg[OF kp]
  note c0 = int_pos_not_zero[OF c] and c1 = int_pos_not_below_1[OF c]
  show ?thesis
  proof (cases "c = 1")
    case True
    then show ?thesis by simp
  next
    case False
    have "subset_jacobian_transformation cpu_count fjac X Qi Qj (Some c) return_J
        = seq (transform_jacobian Js (atleast_2d Qi) (atleast_2d Qj))
            (\<lambda>ret. if return_J then Inr (RetJ ret Js) else Inr (Ret ret))"
      unfolding subset_jacobian_transformation_def Let_def Inr
      by (simp only: seq_def sum.case option.case option.inject False if_False z ng c0 c1
            eq[unfolded seq_def])
    also have "\<dots> = subset_jacobian_transformation cpu_count fjac X Qi Qj (Some 1) return_J"
      by (simp add: subset_jacobian_transformation_def Let_def Inr seq_def)
    finally show ?thesis .
  qed
qed

text \<open>Three points in one dimension on two workers, in chunks of two points and one point.\<close>

lemma subset_jacobian_transformation_workers_example:
  "subset_jacobian_transformation cpu_count (\<lambda>X. Inr (Ten 1 (nrows X) [[replicate (nrows X) 1]]))
       (Points (Mat 1 [[0], [1], [2]])) (Point [1]) (Point [2]) (Some 2) False
     = Inr (Ret (Ten 1 3 [[[2, 2, 2]]]))"
  by (simp add: subset_jacobian_transformation_def atleast_2d_def transform_jacobian_def
        transform_point_def stack_last_def range_step_def ten_chunk_def matmul_def mat_T_def
        transpose_201_def transpose_120_def vstack_def array_eval)

text \<open>
  C9. The call with \<open>cores > 1\<close> is to return what the call with \<open>cores = 1\<close> returns. For
  an input with no point (the Jacobian function below is that of the field \<open>f(x) = x\<close> in one
  dimension, of shape \<open>(1, 1, n)\<close>) the call with one worker returns the empty tensor of
  shape \<open>(1, 1, 0)\<close>; with two workers the chunk size \<open>int(np.ceil(0 / 2))\<close> is 0 and
  \<open>range(0, 0, 0)\<close> raises ValueError.
\<close>

theorem subset_jacobian_transformation_no_points:
  "subset_jacobian_transformation cpu_count (\<lambda>X. Inr (Ten 1 (nrows X) [[replicate (nrows X) 1]]))
       (Points (Mat 1 [])) (Point [1]) (Point [1]) (Some 1) False
     = Inr (Ret (Ten 1 0 [[[]]])) \<and>
   subset_jacobian_transformation cpu_count (\<lambda>X. Inr (Ten 1 (nrows X) [[replicate (nrows X) 1]]))
       (Points (Mat 1 [])) (Point [1]) (Point [1]) (Some 2) False
     = Inl ValueError"
  by (simp add: subset_jacobian_transformation_def atleast_2d_def transform_jacobian_def
        transform_point_def stack_last_def array_eval)

section \<open>The projection onto a segment\<close>

lemma sumsq_nonneg: "0 \<le> sumsq v"
  unfolding sumsq_def by (induction v) auto

lemma sumsq_vminus_eq_0: "length A = length B \<Longrightarrow> sumsq (vminus B A) = 0 \<longleftrightarrow> A = B"
proof (induction A B rule: list_induct2)
  case Nil
  then show ?case by (simp add: sumsq_def vminus_def)
next
  case (Cons a as b bs)
  have nn: "0 \<le> sumsq (vminus bs as)" by (rule sumsq_nonneg)
  have "sumsq (vminus (b # bs) (a # as)) = (b - a)^2 + sumsq (vminus bs as)"
    by (simp add: sumsq_def vminus_def)
  moreover have "(b - a)^2 + sumsq (vminus bs as) = 0 \<longleftrightarrow> (b - a)^2 = 0 \<and> sumsq (vminus bs as) = 0"
    using nn by (simp add: add_nonneg_eq_0_iff)
  ultimately show ?case using Cons.IH by auto
qed

lemma sumsq_lerp:
  "length p = length A \<Longrightarrow> length A = length B \<Longrightarrow>
   sumsq (vminus p (lerp A B s)) =
     sumsq (vminus p A) - 2 * s * dotp (vminus p A) (vminus B A) + s^2 * sumsq (vminus B A)"
proof (induction p A B rule: list_induct3)
  case Nil
  then show ?case by (simp add: sumsq_def vminus_def lerp_def dotp_def vplus_def smul_def)
next
  case (Cons x xs a as b bs)
  have step: "sumsq (vminus (x # xs) (lerp (a # as) (b # bs) s)) = (x - (a + s * (b - a)))^2 + sumsq (vminus xs (lerp as bs s))"
    by (simp add: sumsq_def vminus_def lerp_def vplus_def smul_def)
  have a1: "sumsq (vminus (x # xs) (a # as)) = (x - a)^2 + sumsq (vminus xs as)"
    by (simp add: sumsq_def vminus_def)
  have a2: "dotp (vminus (x # xs) (a # as)) (vminus (b # bs) (a # as)) = (x - a) * (b - a) + dotp (vminus xs as) (vminus bs as)"
    by (simp add: dotp_def vminus_def)
  have a3: "sumsq (vminus (b # bs) (a # as)) = (b - a)^2 + sumsq (vminus bs as)"
    by (simp add: sumsq_def vminus_def)
  show ?case unfolding step a1 a2 a3 Cons.IH
    by (simp add: power2_eq_square algebra_simps)
qed

lemma quad_min:
  fixes c d P :: real
  assumes c: "0 < c" and s: "0 \<le> s" "s \<le> 1"
    and t: "t = (if d / c < 0 then 0 else if d / c > 1 then 1 else d / c)"
  shows "P - 2 * t * d + t^2 * c \<le> P - 2 * s * d + s^2 * c"
proof -
  define t0 where "t0 = d / c"
  have d: "d = t0 * c" using c by (simp add: t0_def)
  have "(P - 2 * s * d + s^2 * c) - (P - 2 * t * d + t^2 * c) = c * ((s - t0)^2 - (t - t0)^2)"
    unfolding d by (simp add: power2_eq_square algebra_simps)
  moreover have "(t - t0)^2 \<le> (s - t0)^2"
  proof -
    have "\<bar>t - t0\<bar> \<le> \<bar>s - t0\<bar>" using s t unfolding t0_def by (auto split: if_splits)
    then show ?thesis by (simp only: abs_le_square_iff)
  qed
  ultimately have "0 \<le> (P - 2 * s * d + s^2 * c) - (P - 2 * t * d + t^2 * c)"
    using c by simp
  then show ?thesis by simp
qed

lemma lerp_0: "length A = length B \<Longrightarrow> lerp A B 0 = A"
  by (induction A B rule: list_induct2) (simp_all add: lerp_def vplus_def smul_def vminus_def)

lemma lerp_1: "length A = length B \<Longrightarrow> lerp A B 1 = B"
  by (induction A B rule: list_induct2) (simp_all add: lerp_def vplus_def smul_def vminus_def)

lemma lerp_same: "lerp A A s = A"
  by (induction A) (simp_all add: lerp_def vplus_def smul_def vminus_def)

lemma pp_unfold:
  assumes "ncols df = 2" "length p = nrows df"
  shows "project_point_to_line_segment p df =
    (if seg_A df = seg_B df then Inr (seg_A df)
     else if proj_param p df < 0 then Inr (seg_A df)
     else if proj_param p df > 1 then Inr (seg_B df)
     else Inr (lerp (seg_A df) (seg_B df) (proj_param p df)))"
proof -
  have l: "length (seg_A df) = length (seg_B df)" "length p = length (seg_A df)"
    using assms by (simp_all add: seg_A_def seg_B_def nrows_def)
  have z: "sumsq (vminus (seg_B df) (seg_A df)) = 0 \<longleftrightarrow> seg_A df = seg_B df"
    using sumsq_vminus_eq_0[OF l(1)] .
  have c0: "column df 0 = Inr (seg_A df)" "column df (Suc 0) = Inr (seg_B df)"
    using assms by (simp_all add: column_def seg_A_def seg_B_def)
  have b1: "np_binop (\<lambda>a b. a - b) (seg_B df) (seg_A df) = Inr (vminus (seg_B df) (seg_A df))"
    using l by (simp add: np_binop_def vminus_def)
  have b2: "np_binop (\<lambda>a b. a - b) p (seg_A df) = Inr (vminus p (seg_A df))"
    using l by (simp add: np_binop_def vminus_def)
  have b3: "np_dot (vminus p (seg_A df)) (vminus (seg_B df) (seg_A df)) = Inr (dotp (vminus p (seg_A df)) (vminus (seg_B df) (seg_A df)))"
    using l by (simp add: np_dot_def vminus_def)
  have b4: "np_binop (\<lambda>a b. a + b) (seg_A df) (smul t (vminus (seg_B df) (seg_A df))) = Inr (lerp (seg_A df) (seg_B df) t)" for t
    using l by (simp add: np_binop_def lerp_def vplus_def smul_def vminus_def)
  show ?thesis
    by (simp add: project_point_to_line_segment_def c0 seq_def b1 b2 b3 b4 z Let_def proj_param_def)
qed

text \<open>
  C10. For a point \<open>p\<close> and a segment whose end points \<open>A\<close> and \<open>B\<close> are the two
  columns of \<open>df\<close>, \<open>project_point_to_line_segment\<close> returns a point
  \<open>q = A + t (B - A)\<close> with \<open>0 \<le> t \<le> 1\<close>; \<open>q\<close> is \<open>A\<close> when the end points are equal
  or the projection parameter is below 0, \<open>B\<close> when the parameter exceeds 1, and no point
  of the segment is closer to \<open>p\<close> than \<open>q\<close>.
\<close>

theorem project_point_to_line_segment_closest:
  assumes "wf_mat df" and "ncols df = 2" and "length p = nrows df"
  shows "\<exists>q t. project_point_to_line_segment p df = Inr q
      \<and> 0 \<le> t \<and> t \<le> 1 \<and> q = lerp (seg_A df) (seg_B df) t
      \<and> (seg_A df = seg_B df \<longrightarrow> q = seg_A df)
      \<and> (seg_A df \<noteq> seg_B df \<and> proj_param p df < 0 \<longrightarrow> q = seg_A df)
      \<and> (seg_A df \<noteq> seg_B df \<and> proj_param p df > 1 \<longrightarrow> q = seg_B df)
      \<and> (\<forall>s. 0 \<le> s \<and> s \<le> 1 \<longrightarrow> euclidean p q \<le> euclidean p (lerp (seg_A df) (seg_B df) s))"
proof -
  let ?A = "seg_A df" and ?B = "seg_B df"
  have l: "length ?A = length ?B" "length p = length ?A"
    using assms by (simp_all add: seg_A_def seg_B_def nrows_def)
  define t where "t = (if ?A = ?B then 0 else if proj_param p df < 0 then 0 else if proj_param p df > 1 then 1 else proj_param p df)"
  define q where "q = lerp ?A ?B t"
  have q: "project_point_to_line_segment p df = Inr q"
    unfolding pp_unfold[OF assms(2,3)] q_def t_def using lerp_0[OF l(1)] lerp_1[OF l(1)] by (simp add: lerp_same)
  have t01: "0 \<le> t" "t \<le> 1" unfolding t_def by auto
  have cA: "?A = ?B \<longrightarrow> q = ?A" unfolding q_def by (simp add: lerp_same)
  have c0: "?A \<noteq> ?B \<and> proj_param p df < 0 \<longrightarrow> q = ?A" unfolding q_def t_def using lerp_0[OF l(1)] by simp
  have c1: "?A \<noteq> ?B \<and> proj_param p df > 1 \<longrightarrow> q = ?B" unfolding q_def t_def using lerp_1[OF l(1)] by simp
  have mn: "euclidean p q \<le> euclidean p (lerp ?A ?B s)" if s: "0 \<le> s" "s \<le> 1" for s
  proof (cases "?A = ?B")
    case True
    then show ?thesis unfolding q_def by (simp add: lerp_same)
  next
    case False
    then have c: "0 < sumsq (vminus ?B ?A)"
      using sumsq_vminus_eq_0[OF l(1)] sumsq_nonneg[of "vminus ?B ?A"] by (simp add: less_le)
    have tt: "t = (if dotp (vminus p ?A) (vminus ?B ?A) / sumsq (vminus ?B ?A) < 0 then 0
                  else if dotp (vminus p ?A) (vminus ?B ?A) / sumsq (vminus ?B ?A) > 1 then 1
                  else dotp (vminus p ?A) (vminus ?B ?A) / sumsq (vminus ?B ?A))"
      unfolding t_def proj_param_def using False by simp
    have "sumsq (vminus p q) \<le> sumsq (vminus p (lerp ?A ?B s))"
      unfolding q_def sumsq_lerp[OF l(2) l(1)] by (rule quad_min[OF c s tt])
    then show ?thesis unfolding euclidean_def norm2_def by simp
  qed
  show ?thesis
    using q t01 cA c0 c1 mn q_def by blast
qed

text \<open>The point \<open>(3, 1)\<close> and the segment from \<open>(0, 0)\<close> to \<open>(2, 0)\<close>: the projection is \<open>B\<close>.\<close>

theorem project_point_to_line_segment_closest_witness:
  "\<exists>q t. project_point_to_line_segment [3, 1] (Mat 2 [[0, 2], [0, 0]]) = Inr q
      \<and> 0 \<le> t \<and> t \<le> 1 \<and> q = lerp [0, 0] [2, 0] t
      \<and> q = [2, 0]
      \<and> euclidean [3, 1] q \<le> euclidean [3, 1] (lerp [0, 0] [2, 0] (1/2))"
proof -
  have w: "wf_mat (Mat 2 [[0, 2], [0, 0]])" by (simp add: wf_mat_def)
  have a: "ncols (Mat 2 [[0, 2], [0, 0]]) = 2" by simp
  have b: "length [3, 1 :: real] = nrows (Mat 2 [[0, 2], [0, 0]])" by (simp add: nrows_def)
  have A: "seg_A (Mat 2 [[0, 2], [0, 0]]) = [0, 0]" by (simp add: seg_A_def)
  have B: "seg_B (Mat 2 [[0, 2], [0, 0]]) = [2, 0]" by (simp add: seg_B_def)
  have pp: "proj_param [3, 1] (Mat 2 [[0, 2], [0, 0]]) > 1"
    by (simp add: proj_param_def A B dotp_def vminus_def sumsq_def)
  from project_point_to_line_segment_closest[OF w a b]
  obtain q t where h: "project_point_to_line_segment [3, 1] (Mat 2 [[0, 2], [0, 0]]) = Inr q"
    "0 \<le> t" "t \<le> 1" "q = lerp [0, 0] [2, 0] t"
    "[0, 0] \<noteq> [2, 0 :: real] \<and> proj_param [3, 1] (Mat 2 [[0, 2], [0, 0]]) > 1 \<longrightarrow> q = [2, 0]"
    "\<forall>s. 0 \<le> s \<and> s \<le> 1 \<longrightarrow> euclidean [3, 1] q \<le> euclidean [3, 1] (lerp [0, 0] [2, 0] s)"
    unfolding A B by blast
  have "q = [2, 0]" using h(5) pp by simp
  moreover have "euclidean [3, 1] q \<le> euclidean [3, 1] (lerp [0, 0] [2, 0] (1/2))"
    using h(6) by simp
  ultimately show ?thesis using h by blast
qed

end
